theory Spec2Isabelle
  imports Complex_Main "HOL-Library.Word"
begin

section \<open>Values and errors\<close>

text \<open>
  The exceptions of \<^verbatim>\<open>deit_utils/engine.py\<close> and of the Python and torch
  primitives it calls. \<open>RuntimeError\<close> stands for torch's complaints about a shape
  and about a process group that has not been initialised.
\<close>

datatype py_error =
    ZeroDivisionError
  | ValueError
  | IndexError
  | AttributeError
  | RuntimeError

text \<open>
  A Python or torch float: a finite number, read as a real (no rounding, no overflow),
  or one of the three special values of IEEE arithmetic.
\<close>

datatype fl = Fin real | PInf | NInf | NaN

fun isfinite :: "fl \<Rightarrow> bool" where
  "isfinite (Fin x) = True"
| "isfinite PInf = False"
| "isfinite NInf = False"
| "isfinite NaN = False"

section \<open>SmoothedValue\<close>

text \<open>
  \<^verbatim>\<open>class SmoothedValue\<close>: the window is a \<^verbatim>\<open>collections.deque\<close> with
  \<^verbatim>\<open>maxlen=window_size\<close>, oldest value first; \<open>None\<close> is Python's unbounded deque.
  \<^verbatim>\<open>count\<close> is a Python int, \<^verbatim>\<open>total\<close> a float.
\<close>

record SmoothedValue =
  sv_deque :: "real list"
  sv_maxlen :: "nat option"
  sv_total :: real
  sv_count :: int
  sv_fmt :: string

text \<open>\<^verbatim>\<open>__init__(self, window_size=20, fmt=None)\<close>; the defaults are applied by the caller
  of the model through \<open>default_window_size\<close> and \<open>None\<close>.\<close>

definition default_window_size :: "nat option" where
  "default_window_size = Some 20"

definition SmoothedValue_init :: "nat option \<Rightarrow> string option \<Rightarrow> SmoothedValue" where
  "SmoothedValue_init window_size fmt =
     \<lparr> sv_deque = [],
       sv_maxlen = window_size,
       sv_total = 0,
       sv_count = 0,
       sv_fmt = (case fmt of None \<Rightarrow> ''{median:.4f} ({global_avg:.4f})'' | Some f \<Rightarrow> f) \<rparr>"

text \<open>
  \<^verbatim>\<open>deque.append\<close>: the item goes to the right end, and when the deque is then longer
  than \<^verbatim>\<open>maxlen\<close> one item is dropped from the left. With \<^verbatim>\<open>maxlen=0\<close> the deque
  stays empty.
\<close>

definition deque_append :: "nat option \<Rightarrow> 'a list \<Rightarrow> 'a \<Rightarrow> 'a list" where
  "deque_append maxlen d x =
     (let d' = d @ [x] in
      case maxlen of
        None \<Rightarrow> d'
      | Some c \<Rightarrow> (if c < length d' then tl d' else d'))"

definition SmoothedValue_update :: "SmoothedValue \<Rightarrow> real \<Rightarrow> int \<Rightarrow> SmoothedValue" where
  "SmoothedValue_update self v n =
     self \<lparr> sv_deque := deque_append (sv_maxlen self) (sv_deque self) v,
            sv_count := sv_count self + n,
            sv_total := sv_total self + v * of_int n \<rparr>"

text \<open>A sequence of \<^verbatim>\<open>update(value, n)\<close> calls, first call first.\<close>

fun updates :: "SmoothedValue \<Rightarrow> (real \<times> int) list \<Rightarrow> SmoothedValue" where
  "updates self [] = self"
| "updates self ((v, n) # us) = updates (SmoothedValue_update self v n) us"

text \<open>
  The read views. \<^verbatim>\<open>torch.tensor(list(self.deque)).median()\<close> is the lower median
  (the element of rank \<open>(len - 1) div 2\<close> of the sorted values) and, like
  \<^verbatim>\<open>mean()\<close>, is NaN on an empty tensor; neither raises. \<^verbatim>\<open>max(self.deque)\<close>
  raises ValueError and \<^verbatim>\<open>self.deque[-1]\<close> raises IndexError on an empty deque;
  \<^verbatim>\<open>self.total / self.count\<close> raises ZeroDivisionError when the count is 0.
\<close>

definition median :: "SmoothedValue \<Rightarrow> fl" where
  "median self =
     (let d = sv_deque self in
      if d = [] then NaN else Fin (sort d ! ((length d - 1) div 2)))"

definition avg :: "SmoothedValue \<Rightarrow> fl" where
  "avg self =
     (let d = sv_deque self in
      if d = [] then NaN else Fin (sum_list d / of_nat (length d)))"

definition global_avg :: "SmoothedValue \<Rightarrow> py_error + real" where
  "global_avg self =
     (if sv_count self = 0 then Inl ZeroDivisionError
      else Inr (sv_total self / of_int (sv_count self)))"

definition max_view :: "SmoothedValue \<Rightarrow> py_error + real" where
  "max_view self =
     (case sv_deque self of
        [] \<Rightarrow> Inl ValueError
      | x # xs \<Rightarrow> Inr (fold max xs x))"

definition value_view :: "SmoothedValue \<Rightarrow> py_error + real" where
  "value_view self =
     (case sv_deque self of
        [] \<Rightarrow> Inl IndexError
      | x # xs \<Rightarrow> Inr (last (x # xs)))"

subsection \<open>Synchronisation across processes\<close>

text \<open>
  The calls a process makes on \<^verbatim>\<open>torch.distributed\<close>, in order.
\<close>

datatype dist_call = Barrier | AllReduce

text \<open>
  \<^verbatim>\<open>dist.all_reduce(t)\<close> with the default reduction replaces the tensor of every
  process by the element-wise sum over all processes. The tensor here has two entries,
  \<^verbatim>\<open>[count, total]\<close>; \<open>peers\<close> holds the tensors of the other processes.
\<close>

definition all_reduce :: "(real \<times> real) list \<Rightarrow> real \<times> real \<Rightarrow> real \<times> real" where
  "all_reduce peers t =
     (fst t + sum_list (map fst peers), snd t + sum_list (map snd peers))"

text \<open>Python's \<^verbatim>\<open>int(x)\<close> on a float truncates towards zero.\<close>

definition py_int :: "real \<Rightarrow> int" where
  "py_int x = (if 0 \<le> x then \<lfloor>x\<rfloor> else \<lceil>x\<rceil>)"

definition SmoothedValue_synchronize_between_processes ::
  "(real \<times> real) list \<Rightarrow> SmoothedValue \<Rightarrow> dist_call list \<times> SmoothedValue" where
  "SmoothedValue_synchronize_between_processes peers self =
     (let t = (of_int (sv_count self), sv_total self);
          t' = all_reduce peers t
      in ([Barrier, AllReduce],
          self \<lparr> sv_count := py_int (fst t'), sv_total := snd t' \<rparr>))"

text \<open>
  All processes of a run at once: process \<open>r\<close> holds \<open>world ! r\<close> and its peers are
  the other entries.
\<close>

definition tensor_of :: "SmoothedValue \<Rightarrow> real \<times> real" where
  "tensor_of self = (of_int (sv_count self), sv_total self)"

definition peers_of :: "SmoothedValue list \<Rightarrow> nat \<Rightarrow> (real \<times> real) list" where
  "peers_of world r = map tensor_of (take r world @ drop (Suc r) world)"

definition synchronize_world :: "SmoothedValue list \<Rightarrow> (dist_call list \<times> SmoothedValue) list" where
  "synchronize_world world =
     map (\<lambda>r. SmoothedValue_synchronize_between_processes (peers_of world r) (world ! r))
       [0..<length world]"

section \<open>MetricLogger\<close>

text \<open>
  \<^verbatim>\<open>self.meters\<close> is a \<^verbatim>\<open>defaultdict(SmoothedValue)\<close>: an insertion-ordered
  dictionary, here an association list with one entry per key, in which a missing key is
  created with the default constructor on first subscript. The injected logger is a sink
  of messages.
\<close>

type_synonym logger = "string list"

record MetricLogger =
  meters :: "(string \<times> SmoothedValue) list"
  delimiter :: string
  log :: "logger option"

definition MetricLogger_init :: "string \<Rightarrow> logger option \<Rightarrow> MetricLogger" where
  "MetricLogger_init delim lg = \<lparr> meters = [], delimiter = delim, log = lg \<rparr>"

fun dict_set :: "('k \<times> 'v) list \<Rightarrow> 'k \<Rightarrow> 'v \<Rightarrow> ('k \<times> 'v) list" where
  "dict_set [] k v = [(k, v)]"
| "dict_set ((k', v') # d) k v = (if k' = k then (k, v) # d else (k', v') # dict_set d k v)"

definition meters_getitem :: "(string \<times> SmoothedValue) list \<Rightarrow> string \<Rightarrow> SmoothedValue" where
  "meters_getitem d k =
     (case map_of d k of
        Some m \<Rightarrow> m
      | None \<Rightarrow> SmoothedValue_init default_window_size None)"

definition MetricLogger_update :: "MetricLogger \<Rightarrow> (string \<times> real) list \<Rightarrow> MetricLogger" where
  "MetricLogger_update self kwargs =
     fold (\<lambda>(k, v) ml.
            ml \<lparr> meters := dict_set (meters ml) k
                               (SmoothedValue_update (meters_getitem (meters ml) k) v 1) \<rparr>)
       kwargs self"

definition add_meter :: "MetricLogger \<Rightarrow> string \<Rightarrow> SmoothedValue \<Rightarrow> MetricLogger" where
  "add_meter self name meter = self \<lparr> meters := dict_set (meters self) name meter \<rparr>"

text \<open>
  \<^verbatim>\<open>__getattr__\<close> is the hook Python calls when ordinary attribute lookup has
  found nothing. It answers from the meters first, then from the instance dictionary
  \<^verbatim>\<open>self.__dict__\<close>, whose keys are the three fields set by \<^verbatim>\<open>__init__\<close>.
\<close>

datatype attr_value =
    Meter SmoothedValue
  | MetersAttr "(string \<times> SmoothedValue) list"
  | DelimiterAttr string
  | LogAttr "logger option"
  | Method string
  | ClassAttr string

definition instance_dict :: "MetricLogger \<Rightarrow> (string \<times> attr_value) list" where
  "instance_dict self =
     [(''meters'', MetersAttr (meters self)),
      (''delimiter'', DelimiterAttr (delimiter self)),
      (''log'', LogAttr (log self))]"

definition MetricLogger_getattr :: "MetricLogger \<Rightarrow> string \<Rightarrow> py_error + attr_value" where
  "MetricLogger_getattr self attr =
     (case map_of (meters self) attr of
        Some m \<Rightarrow> Inr (Meter m)
      | None \<Rightarrow>
          (case map_of (instance_dict self) attr of
             Some v \<Rightarrow> Inr v
           | None \<Rightarrow> Inl AttributeError))"

text \<open>
  Attribute-style access \<^verbatim>\<open>logger.attr\<close>. Python's ordinary lookup runs first and
  finds the keys of the instance dictionary and the attributes of the class: the methods
  of the class body, and the names every class has from the interpreter and from
  \<^verbatim>\<open>object\<close> (\<^verbatim>\<open>__class__\<close>, \<^verbatim>\<open>__dict__\<close>, \<^verbatim>\<open>__repr__\<close>, ...). That last list
  depends on the interpreter and is the parameter \<open>builtin\<close>. Only a name that
  ordinary lookup does not find is handed to \<^verbatim>\<open>__getattr__\<close>.
\<close>

definition class_methods :: "string list" where
  "class_methods =
     [''__init__'', ''update'', ''__getattr__'', ''__str__'',
      ''synchronize_between_processes'', ''add_meter'', ''log_every'']"

definition attribute_lookup :: "string list \<Rightarrow> MetricLogger \<Rightarrow> string \<Rightarrow> py_error + attr_value" where
  "attribute_lookup builtin self attr =
     (case map_of (instance_dict self) attr of
        Some v \<Rightarrow> Inr v
      | None \<Rightarrow>
          (if attr \<in> set class_methods then Inr (Method attr)
           else if attr \<in> set builtin then Inr (ClassAttr attr)
           else MetricLogger_getattr self attr))"

text \<open>
  \<^verbatim>\<open>MetricLogger.synchronize_between_processes\<close> walks \<^verbatim>\<open>self.meters.values()\<close>
  in order. \<open>peers k\<close> is what the other processes contribute to the \<open>k\<close>-th
  collective of the walk.
\<close>

fun sync_meters ::
  "(nat \<Rightarrow> (real \<times> real) list) \<Rightarrow> nat \<Rightarrow> (string \<times> SmoothedValue) list
     \<Rightarrow> dist_call list \<times> (string \<times> SmoothedValue) list" where
  "sync_meters peers k [] = ([], [])"
| "sync_meters peers k ((name, meter) # ms) =
     (let (calls, meter') = SmoothedValue_synchronize_between_processes (peers k) meter;
          (calls', ms') = sync_meters peers (Suc k) ms
      in (calls @ calls', (name, meter') # ms'))"

definition MetricLogger_synchronize_between_processes ::
  "(nat \<Rightarrow> (real \<times> real) list) \<Rightarrow> MetricLogger \<Rightarrow> dist_call list \<times> MetricLogger" where
  "MetricLogger_synchronize_between_processes peers self =
     (let (calls, ms) = sync_meters peers 0 (meters self)
      in (calls, self \<lparr> meters := ms \<rparr>))"

section \<open>Float arithmetic of the losses\<close>

text \<open>
  Tensor entries and the temperature are finite floats, read as reals. Dividing by a zero
  temperature does not raise in torch: it gives an infinity or NaN. Masking writes
  \<open>-inf\<close> into the logits, so the cross entropy runs on \<open>fl\<close> values.
\<close>

definition fl_div :: "real \<Rightarrow> real \<Rightarrow> fl" where
  "fl_div x t =
     (if t = 0 then (if x = 0 then NaN else if 0 < x then PInf else NInf)
      else Fin (x / t))"

fun fl_add :: "fl \<Rightarrow> fl \<Rightarrow> fl" where
  "fl_add (Fin a) (Fin b) = Fin (a + b)"
| "fl_add NaN y = NaN"
| "fl_add x NaN = NaN"
| "fl_add PInf NInf = NaN"
| "fl_add NInf PInf = NaN"
| "fl_add PInf y = PInf"
| "fl_add x PInf = PInf"
| "fl_add NInf y = NInf"
| "fl_add x NInf = NInf"

fun fl_neg :: "fl \<Rightarrow> fl" where
  "fl_neg (Fin a) = Fin (- a)"
| "fl_neg PInf = NInf"
| "fl_neg NInf = PInf"
| "fl_neg NaN = NaN"

text \<open>Product of a float with a finite factor.\<close>

fun fl_scale :: "fl \<Rightarrow> real \<Rightarrow> fl" where
  "fl_scale (Fin a) c = Fin (a * c)"
| "fl_scale PInf c = (if 0 < c then PInf else if c < 0 then NInf else NaN)"
| "fl_scale NInf c = (if 0 < c then NInf else if c < 0 then PInf else NaN)"
| "fl_scale NaN c = NaN"

text \<open>The mean of a list of floats: their sum over their number, NaN for no values.\<close>

definition fl_mean :: "fl list \<Rightarrow> fl" where
  "fl_mean xs =
     (if xs = [] then NaN else fl_scale (foldl fl_add (Fin 0) xs) (1 / of_nat (length xs)))"

section \<open>Contrastive losses\<close>

text \<open>
  A 2-D tensor is the list of its rows, a 1-D tensor a list. \<^verbatim>\<open>nn.functional.normalize(x, dim=1)\<close>
  divides every row by \<open>max(\<parallel>row\<parallel>\<^sub>2, eps)\<close> with \<open>eps = 1e-12\<close>.
\<close>

definition normalize_eps :: real where
  "normalize_eps = 1 / 10 ^ 12"

definition l2_norm :: "real list \<Rightarrow> real" where
  "l2_norm v = sqrt (sum_list (map (\<lambda>x. x * x) v))"

definition normalize_row :: "real list \<Rightarrow> real list" where
  "normalize_row v = map (\<lambda>x. x / max (l2_norm v) normalize_eps) v"

definition F_normalize :: "real list list \<Rightarrow> real list list" where
  "F_normalize x = map normalize_row x"

text \<open>
  The state of \<^verbatim>\<open>torch.distributed\<close> as one process sees it during a call of a loss:
  whether a process group exists, the rank of the process, the number of processes, and
  what the process of each other rank hands to the gathers of this call (its normalised
  key batch and its label vector).
\<close>

record dist =
  is_initialized :: bool
  get_rank :: nat
  get_world_size :: nat
  peer_keys :: "nat \<Rightarrow> real list list"
  peer_labels :: "nat \<Rightarrow> 64 word list"

text \<open>
  Modelled from the spec: \<^verbatim>\<open>concat_all_gather\<close> is imported from
  \<^verbatim>\<open>moco.builder\<close>, which is not among the source files. The spec describes it as the
  gather that returns the concatenation of the local tensors of all processes along the
  batch axis, in ascending rank order, each process contributing its local batch
  contiguously; with a single process it returns the local tensor.
\<close>

definition concat_all_gather :: "dist \<Rightarrow> (nat \<Rightarrow> 'a list) \<Rightarrow> 'a list \<Rightarrow> 'a list" where
  "concat_all_gather d peers x =
     concat (map (\<lambda>r. if r = get_rank d then x else peers r) [0..<get_world_size d])"

text \<open>
  \<^verbatim>\<open>torch.einsum('nc,mc->nm', [q, k])\<close>: entry \<open>(n, m)\<close> is the dot product of row
  \<open>n\<close> of \<open>q\<close> with row \<open>m\<close> of \<open>k\<close>; rows of different length are a shape error.
  (Broadcasting of an axis of extent 1 against a longer one is not modelled for the
  feature axis: it is reported as the shape error.)
\<close>

definition dot :: "real list \<Rightarrow> real list \<Rightarrow> real" where
  "dot u v = sum_list (map (\<lambda>(a, b). a * b) (zip u v))"

definition einsum_nc_mc :: "real list list \<Rightarrow> real list list \<Rightarrow> py_error + real list list" where
  "einsum_nc_mc q k =
     (if list_all (\<lambda>u. list_all (\<lambda>v. length u = length v) k) q
      then Inr (map (\<lambda>u. map (\<lambda>v. dot u v) k) q)
      else Inl RuntimeError)"

definition div_temp :: "real list list \<Rightarrow> real \<Rightarrow> fl list list" where
  "div_temp logits temp = map (map (\<lambda>x. fl_div x temp)) logits"

text \<open>
  \<^verbatim>\<open>nn.CrossEntropyLoss()(logits, labels)\<close> with its default mean reduction: the mean
  over the rows of minus the log-softmax of the row at its target column. A row with a
  NaN or \<open>+inf\<close> entry, or with nothing but \<open>-inf\<close>, has NaN everywhere in its
  log-softmax. A target outside the columns raises IndexError, a target vector of the
  wrong length ValueError.
\<close>

fun fin_part :: "fl list \<Rightarrow> real list" where
  "fin_part [] = []"
| "fin_part (Fin a # xs) = a # fin_part xs"
| "fin_part (x # xs) = fin_part xs"

definition log_softmax_at :: "fl list \<Rightarrow> nat \<Rightarrow> fl" where
  "log_softmax_at row t =
     (if NaN \<in> set row \<or> PInf \<in> set row \<or> fin_part row = [] then NaN
      else (case row ! t of
              Fin a \<Rightarrow> Fin (a - ln (sum_list (map exp (fin_part row))))
            | other \<Rightarrow> NInf))"

definition CrossEntropyLoss :: "fl list list \<Rightarrow> nat list \<Rightarrow> py_error + fl" where
  "CrossEntropyLoss logits labels =
     (if length labels \<noteq> length logits then Inl ValueError
      else if \<not> list_all (\<lambda>(row, t). t < length row) (zip logits labels) then Inl IndexError
      else Inr (fl_mean (map (\<lambda>(row, t). fl_neg (log_softmax_at row t)) (zip logits labels))))"

text \<open>\<^verbatim>\<open>torch.arange(N) + N * rank\<close>: the column of the positive key of every local row.\<close>

definition positive_labels :: "nat \<Rightarrow> nat \<Rightarrow> nat list" where
  "positive_labels N rank = map (\<lambda>n. n + N * rank) [0..<N]"

definition scale_loss :: "py_error + fl \<Rightarrow> real \<Rightarrow> py_error + fl" where
  "scale_loss r c = (case r of Inl e \<Rightarrow> Inl e | Inr l \<Rightarrow> Inr (fl_scale l c))"

text \<open>
  \<^verbatim>\<open>contrastive_loss\<close> gathers and asks \<^verbatim>\<open>torch.distributed.get_rank()\<close> without
  looking at \<^verbatim>\<open>torch.distributed.is_initialized()\<close>: with no process group the
  call raises, and nothing has been changed by then.
\<close>

definition contrastive_loss :: "dist \<Rightarrow> real list list \<Rightarrow> real list list \<Rightarrow> real \<Rightarrow> py_error + fl" where
  "contrastive_loss d q k temp =
     (if \<not> is_initialized d then Inl RuntimeError
      else
       (let q = F_normalize q;
            k = F_normalize k;
            k = concat_all_gather d (peer_keys d) k
        in case einsum_nc_mc q k of
             Inl e \<Rightarrow> Inl e
           | Inr dots \<Rightarrow>
               (let logits = div_temp dots temp;
                    N = length logits;
                    labels = positive_labels N (get_rank d)
                in scale_loss (CrossEntropyLoss logits labels) (2 * temp))))"

text \<open>
  The labels are an int64 tensor, so their difference and its absolute value wrap around
  at 64 bits: \<^verbatim>\<open>torch.abs\<close> of the least int64 is that number again.
\<close>

definition torch_abs :: "64 word \<Rightarrow> 64 word" where
  "torch_abs x = (if x <s 0 then - x else x)"

text \<open>
  The label mask of \<^verbatim>\<open>supervised_contrastive_loss\<close>,
  \<^verbatim>\<open>torch.abs(label_q.unsqueeze(1) - label_k.unsqueeze(0)) > 0\<close>: entry \<open>(n, m)\<close>
  compares the label of query \<open>n\<close> with the label of key \<open>m\<close>.
\<close>

definition label_mask :: "64 word list \<Rightarrow> 64 word list \<Rightarrow> bool list list" where
  "label_mask supervised_label_q supervised_label_k =
     map (\<lambda>a. map (\<lambda>b. 0 <s torch_abs (a - b)) supervised_label_k) supervised_label_q"

text \<open>
  \<^verbatim>\<open>label_mask[arange(N), arange(N) + N * rank] = True\<close>, with \<open>N\<close> the number of
  rows of the mask and \<open>M\<close> its number of columns; a column past the end raises
  IndexError.
\<close>

definition set_positives :: "bool list list \<Rightarrow> nat \<Rightarrow> nat \<Rightarrow> py_error + bool list list" where
  "set_positives lmask M rank =
     (let N = length lmask in
      if list_all (\<lambda>n. n + N * rank < M) [0..<N]
      then Inr (map (\<lambda>(n, row). row[n + N * rank := True]) (zip [0..<N] lmask))
      else Inl IndexError)"

text \<open>
  \<^verbatim>\<open>logits.masked_fill_(lmask, value)\<close>: the mask is broadcast to the shape of the
  logits (an axis of extent 1 is repeated, any other mismatch is a shape error) and the
  entries under a True are overwritten. \<open>C\<close> is the number of columns of the mask and
  \<open>M\<close> that of the logits.
\<close>

definition broadcast_to :: "nat \<Rightarrow> nat \<Rightarrow> 'a list \<Rightarrow> py_error + 'a list" where
  "broadcast_to have want xs =
     (if have = want then Inr xs
      else if have = 1 then Inr (replicate want (hd xs))
      else Inl RuntimeError)"

definition masked_fill ::
  "fl list list \<Rightarrow> nat \<Rightarrow> bool list list \<Rightarrow> nat \<Rightarrow> fl \<Rightarrow> py_error + fl list list" where
  "masked_fill logits M lmask C v =
     (if \<not> (C = M \<or> C = 1) then Inl RuntimeError
      else case broadcast_to (length lmask) (length logits) lmask of
        Inl e \<Rightarrow> Inl e
      | Inr rows \<Rightarrow>
          Inr (map (\<lambda>(mrow, lrow).
                      map (\<lambda>(b, x). if b then v else x)
                        (zip (if C = M then mrow else replicate M (hd mrow)) lrow))
                 (zip rows logits)))"

text \<open>
  The logits of \<^verbatim>\<open>supervised_contrastive_loss\<close> as they are handed to the cross
  entropy, that is after \<^verbatim>\<open>masked_fill_(~label_mask, float('-inf'))\<close>.
\<close>

definition supervised_logits ::
  "dist \<Rightarrow> real list list \<Rightarrow> real list list \<Rightarrow> 64 word list \<Rightarrow> real \<Rightarrow> py_error + fl list list" where
  "supervised_logits d q k label temp =
     (let q = F_normalize q;
          k = F_normalize k;
          k = (if is_initialized d then concat_all_gather d (peer_keys d) k else k);
          supervised_label_q = label;
          supervised_label_k =
            (if is_initialized d then concat_all_gather d (peer_labels d) label else label);
          lmask = label_mask supervised_label_q supervised_label_k;
          rank = (if is_initialized d then get_rank d else 0)
      in case set_positives lmask (length supervised_label_k) rank of
           Inl e \<Rightarrow> Inl e
         | Inr lmask \<Rightarrow>
             (case einsum_nc_mc q k of
                Inl e \<Rightarrow> Inl e
              | Inr dots \<Rightarrow>
                  masked_fill (div_temp dots temp) (length k)
                    (map (map Not) lmask) (length supervised_label_k) NInf))"

definition supervised_contrastive_loss ::
  "dist \<Rightarrow> real list list \<Rightarrow> real list list \<Rightarrow> 64 word list \<Rightarrow> real \<Rightarrow> py_error + fl" where
  "supervised_contrastive_loss d q k label temp =
     (case supervised_logits d q k label temp of
        Inl e \<Rightarrow> Inl e
      | Inr logits \<Rightarrow>
          (let N = length logits;
               rank = (if is_initialized d then get_rank d else 0);
               labels = positive_labels N rank
           in scale_loss (CrossEntropyLoss logits labels) (2 * temp)))"

text \<open>
  The unsupervised loss in the words of its specification: with \<open>N\<close> local samples,
  the logit of local sample \<open>n\<close> against gathered key \<open>m\<close> is the dot product of the
  normalised rows over the temperature, the positive of \<open>n\<close> is column
  \<open>n + rank * N\<close>, and the result is \<open>temp * 2\<close> times the mean over the local batch of
  the cross entropy of each row against its positive.
\<close>

definition spec_gathered_keys :: "dist \<Rightarrow> real list list \<Rightarrow> real list list" where
  "spec_gathered_keys d k =
     concat (map (\<lambda>r. if r = get_rank d then map normalize_row k else peer_keys d r)
               [0..<get_world_size d])"

definition spec_logit :: "dist \<Rightarrow> real list list \<Rightarrow> real list list \<Rightarrow> real \<Rightarrow> nat \<Rightarrow> nat \<Rightarrow> fl" where
  "spec_logit d q k temp n m =
     fl_div (dot (normalize_row (q ! n)) (spec_gathered_keys d k ! m)) temp"

definition spec_positive :: "dist \<Rightarrow> nat \<Rightarrow> nat \<Rightarrow> nat" where
  "spec_positive d N n = n + get_rank d * N"

definition spec_contrastive_loss :: "dist \<Rightarrow> real list list \<Rightarrow> real list list \<Rightarrow> real \<Rightarrow> fl" where
  "spec_contrastive_loss d q k temp =
     (let N = length q;
          M = length (spec_gathered_keys d k);
          row = (\<lambda>n. map (spec_logit d q k temp n) [0..<M])
      in fl_scale
           (fl_mean (map (\<lambda>n. fl_neg (log_softmax_at (row n) (spec_positive d N n))) [0..<N]))
           (temp * 2))"

text \<open>A process group of one process: rank 0 of 1, nothing comes from peers.\<close>

definition single_process :: dist where
  "single_process =
     \<lparr> is_initialized = True, get_rank = 0, get_world_size = 1,
       peer_keys = (\<lambda>r. []), peer_labels = (\<lambda>r. []) \<rparr>"

section \<open>The training step\<close>

text \<open>
  The fields of \<^verbatim>\<open>args\<close> that \<^verbatim>\<open>train_one_epoch\<close> reads.
\<close>

record args =
  kaiming_sched :: bool
  moe_contrastive_weight :: real
  moe_contrastive_supervised :: bool
  arch :: string
  moe_noisy_gate_loss_weight :: real

text \<open>
  The collaborators of the step are passed in by the caller or imported from modules
  outside the source files; the step is modelled over any behaviour of theirs. \<open>'b\<close> is
  a batch of the data loader, \<open>'p\<close> the parameters of the model, \<open>'o\<close> the state of
  the optimizer.
  \<^item> \<open>adjust_learning_rate\<close>: \<^verbatim>\<open>utils.lr_sched.adjust_learning_rate(optimizer, epoch_progress, args)\<close>;
  \<^item> \<open>criterion\<close>: the value of \<^verbatim>\<open>criterion(samples, model(samples), targets)\<close> on the
    batch, after the optional mixup;
  \<^item> \<open>collect_moe_activation\<close>: for every gate layer the pair \<^verbatim>\<open>(q_g[:, 0], k_g[:, 0])\<close>
    of the two views, with the state of the process group at that layer's gather;
  \<^item> \<open>targets_discrete\<close>: the targets of the batch before mixup, an int64 tensor;
  \<^item> \<open>collect_noisy_gating_loss\<close>: \<^verbatim>\<open>utils.moe_utils.collect_noisy_gating_loss(model, weight)\<close>;
  \<^item> \<open>zero_grad\<close>: \<^verbatim>\<open>optimizer.zero_grad()\<close>;
  \<^item> \<open>loss_scaler\<close>: the scaler's backward pass, clipping and optimizer step;
  \<^item> \<open>ema_update\<close>: \<^verbatim>\<open>model_ema.update(model)\<close>;
  \<^item> \<open>lr\<close>: \<^verbatim>\<open>optimizer.param_groups[0]["lr"]\<close>.
\<close>

record ('b, 'p, 'o) collaborators =
  adjust_learning_rate :: "'o \<Rightarrow> real \<Rightarrow> 'o"
  criterion :: "'p \<Rightarrow> 'b \<Rightarrow> fl"
  collect_moe_activation :: "'p \<Rightarrow> 'b \<Rightarrow> (dist \<times> real list list \<times> real list list) list"
  targets_discrete :: "'b \<Rightarrow> 64 word list"
  collect_noisy_gating_loss :: "'p \<Rightarrow> real \<Rightarrow> fl"
  zero_grad :: "'o \<Rightarrow> 'o"
  loss_scaler :: "fl \<Rightarrow> 'o \<Rightarrow> 'p \<Rightarrow> 'o \<times> 'p"
  ema_update :: "'p \<Rightarrow> 'p \<Rightarrow> 'p"
  lr :: "'o \<Rightarrow> real"

text \<open>
  The calls of a step that change something outside it, in the order they are made;
  \<open>MetricUpdate\<close> is \<^verbatim>\<open>metric_logger.update(name=value)\<close>.
\<close>

datatype call =
    AdjustLearningRate real
  | MetricUpdate string fl
  | ZeroGrad
  | LossScaler fl
  | CudaSynchronize
  | EmaUpdate

record ('p, 'o) train_state =
  parameters :: 'p
  optimizer :: 'o
  model_ema :: "'p option"
  calls :: "call list"

datatype outcome = Completed | Raised py_error

text \<open>
  The loop over \<^verbatim>\<open>zip(q_gate, k_gate)\<close> that accumulates \<^verbatim>\<open>loss_gate\<close>; both losses
  are called with their default temperature 0.2.
\<close>

fun loss_gate_loop ::
  "args \<Rightarrow> 64 word list \<Rightarrow> fl \<Rightarrow> (dist \<times> real list list \<times> real list list) list \<Rightarrow> py_error + fl" where
  "loss_gate_loop a targets loss_gate [] = Inr loss_gate"
| "loss_gate_loop a targets loss_gate ((d, q_g, k_g) # gates) =
     (case (if moe_contrastive_supervised a
            then supervised_contrastive_loss d q_g k_g targets (1 / 5)
            else contrastive_loss d q_g k_g (1 / 5)) of
        Inl e \<Rightarrow> Inl e
      | Inr l \<Rightarrow>
          loss_gate_loop a targets (fl_add loss_gate (fl_scale l (moe_contrastive_weight a))) gates)"

text \<open>
  \<^verbatim>\<open>loss_gate\<close> starts as the int 0, so \<^verbatim>\<open>loss_gate.item()\<close> raises AttributeError
  when there is no gate layer.
\<close>

definition loss_gate_item ::
  "args \<Rightarrow> 64 word list \<Rightarrow> (dist \<times> real list list \<times> real list list) list \<Rightarrow> py_error + fl" where
  "loss_gate_item a targets gates =
     (case loss_gate_loop a targets (Fin 0) gates of
        Inl e \<Rightarrow> Inl e
      | Inr loss_gate \<Rightarrow> (if gates = [] then Inl AttributeError else Inr loss_gate))"

text \<open>
  The body of the loop of \<^verbatim>\<open>train_one_epoch\<close> for batch number \<open>data_iter_step\<close> of
  \<open>n\<close>. \<open>loss_value\<close> is read from the loss of the criterion before the gate and load
  losses are added to \<open>loss\<close>. The state that comes back with \<open>Raised\<close> is the state at
  the point where the exception leaves the step.
\<close>

definition train_step ::
  "('b, 'p, 'o) collaborators \<Rightarrow> args \<Rightarrow> nat \<Rightarrow> nat \<Rightarrow> ('p, 'o) train_state \<Rightarrow> nat \<times> 'b
     \<Rightarrow> outcome \<times> ('p, 'o) train_state" where
  "train_step c a epoch n s step =
     (let data_iter_step = fst step;
          batch = snd step;
          progress = real data_iter_step / real n + real epoch;
          s = (if kaiming_sched a
               then s \<lparr> optimizer := adjust_learning_rate c (optimizer s) progress,
                       calls := calls s @ [AdjustLearningRate progress] \<rparr>
               else s);
          loss = criterion c (parameters s) batch;
          loss_value = loss
      in case (if moe_contrastive_weight a > 0
               then (case loss_gate_item a (targets_discrete c batch)
                            (collect_moe_activation c (parameters s) batch) of
                       Inl e \<Rightarrow> Inl e
                     | Inr loss_gate \<Rightarrow>
                         Inr (s \<lparr> calls := calls s @ [MetricUpdate ''loss_gate'' loss_gate] \<rparr>,
                              fl_add loss loss_gate))
               else Inr (s, loss)) of
           Inl e \<Rightarrow> (Raised e, s)
         | Inr (s, loss) \<Rightarrow>
             (let loss = (if take 7 (arch a) = ''moe_vit''
                          then fl_add loss
                                 (collect_noisy_gating_loss c (parameters s)
                                    (moe_noisy_gate_loss_weight a))
                          else loss)
              in if \<not> isfinite loss_value then (Raised ValueError, s)
                 else
                   (let opt = zero_grad c (optimizer s);
                        stepped = loss_scaler c loss opt (parameters s);
                        ema = (case model_ema s of
                                 None \<Rightarrow> None
                               | Some e \<Rightarrow> Some (ema_update c e (snd stepped)))
                    in (Completed,
                        s \<lparr> parameters := snd stepped,
                            optimizer := fst stepped,
                            model_ema := ema,
                            calls := calls s @ [ZeroGrad, LossScaler loss, CudaSynchronize]
                                     @ (case model_ema s of None \<Rightarrow> [] | Some e \<Rightarrow> [EmaUpdate])
                                     @ [MetricUpdate ''loss'' loss_value,
                                        MetricUpdate ''lr'' (Fin (lr c (fst stepped)))] \<rparr>))))"

text \<open>The loop itself: an exception leaves it at once, the later batches are not run.\<close>

fun train_loop ::
  "('b, 'p, 'o) collaborators \<Rightarrow> args \<Rightarrow> nat \<Rightarrow> nat \<Rightarrow> ('p, 'o) train_state \<Rightarrow> (nat \<times> 'b) list
     \<Rightarrow> outcome \<times> ('p, 'o) train_state" where
  "train_loop c a epoch n s [] = (Completed, s)"
| "train_loop c a epoch n s (step # steps) =
     (case train_step c a epoch n s step of
        (Completed, s') \<Rightarrow> train_loop c a epoch n s' steps
      | (Raised e, s') \<Rightarrow> (Raised e, s'))"

section \<open>Properties of SmoothedValue\<close>

lemma updates_count: "sv_count (updates self us) = sv_count self + sum_list (map snd us)"
  by (induction self us rule: updates.induct) (simp_all add: SmoothedValue_update_def)

lemma updates_total:
  "sv_total (updates self us) = sv_total self + (\<Sum>(v, n)\<leftarrow>us. v * of_int n)"
  by (induction self us rule: updates.induct) (simp_all add: SmoothedValue_update_def)

lemma updates_maxlen: "sv_maxlen (updates self us) = sv_maxlen self"
  by (induction self us rule: updates.induct) (simp_all add: SmoothedValue_update_def)

lemma deque_append_Some:
  "length d \<le> c \<Longrightarrow> deque_append (Some c) d x = drop (Suc (length d) - c) (d @ [x])"
  by (cases d) (auto simp: deque_append_def Let_def Suc_diff_le)

text \<open>
  The window after a run of updates: the last \<open>c\<close> of the values the deque held before
  followed by the values passed to \<open>update\<close>.
\<close>

lemma updates_deque:
  "sv_maxlen self = Some c \<Longrightarrow> length (sv_deque self) \<le> c \<Longrightarrow>
   sv_deque (updates self us) =
     drop (length (sv_deque self) + length us - c) (sv_deque self @ map fst us)"
proof (induction self us rule: updates.induct)
  case (1 self)
  then show ?case by simp
next
  case (2 self v n us)
  let ?d = "sv_deque self"
  let ?s1 = "SmoothedValue_update self v n"
  have d1: "sv_deque ?s1 = drop (Suc (length ?d) - c) (?d @ [v])"
    using 2 by (simp add: SmoothedValue_update_def deque_append_Some)
  have m1: "sv_maxlen ?s1 = Some c"
    using 2 by (simp add: SmoothedValue_update_def)
  have l1: "length (sv_deque ?s1) \<le> c"
    using 2 by (simp add: d1)
  have "sv_deque (updates ?s1 us) =
          drop (length (sv_deque ?s1) + length us - c) (sv_deque ?s1 @ map fst us)"
    using 2(1)[OF m1 l1] .
  also have "\<dots> = drop (length ?d + Suc (length us) - c) (?d @ v # map fst us)"
  proof (cases "length ?d < c")
    case True
    then show ?thesis by (simp add: d1)
  next
    case False
    with 2 have full: "length ?d = c" by simp
    show ?thesis
    proof (cases "?d")
      case Nil
      with full show ?thesis by (simp add: d1)
    next
      case (Cons a d')
      with full show ?thesis by (simp add: d1 drop_Suc)
    qed
  qed
  finally show ?case by simp
qed

lemma fresh_updates_deque:
  "sv_deque (updates (SmoothedValue_init (Some c) f) us) = drop (length us - c) (map fst us)"
  using updates_deque[of "SmoothedValue_init (Some c) f" c us]
  by (simp add: SmoothedValue_init_def)

text \<open>
  C4, as amended. After any sequence of \<open>update(v, n)\<close> calls on a fresh SmoothedValue
  whose weights do not sum to zero, \<open>global_avg\<close> is the sum of the \<open>v * n\<close> over the
  sum of the \<open>n\<close>, whatever the window capacity and the format.
\<close>

theorem global_avg_weighted_mean:
  "sum_list (map snd us) \<noteq> 0 \<Longrightarrow>
   global_avg (updates (SmoothedValue_init window_size fmt) us) =
     Inr ((\<Sum>(v, n)\<leftarrow>us. v * of_int n) / of_int (sum_list (map snd us)))"
  by (simp add: global_avg_def updates_count updates_total SmoothedValue_init_def)

theorem global_avg_weighted_mean_witness:
  "sum_list (map snd [(2::real, 1::int), (4, 3)]) \<noteq> 0 \<and>
   global_avg (updates (SmoothedValue_init (Some 1) None) [(2, 1), (4, 3)]) = Inr (7 / 2)"
  using global_avg_weighted_mean[of "[(2, 1), (4, 3)]" "Some 1" None] by simp

text \<open>
  C4 as stated fails: one call \<open>update(1.0, n=0)\<close> is a sequence with at least one call,
  and \<open>global_avg\<close> then raises ZeroDivisionError instead of returning the quotient.
\<close>

theorem global_avg_zero_weight_counterexample:
  "[(1::real, 0::int)] \<noteq> [] \<and>
   global_avg (updates (SmoothedValue_init (Some 20) None) [(1, 0)]) = Inl ZeroDivisionError"
  by (simp add: global_avg_def SmoothedValue_update_def SmoothedValue_init_def)

text \<open>
  C7. With window capacity \<open>c\<close>, two runs of updates on a fresh SmoothedValue whose last
  \<open>c\<close> values agree (all values, for a run shorter than \<open>c\<close>) give the same
  \<open>median\<close>, \<open>avg\<close>, \<open>max\<close> and \<open>value\<close>; the weights and the earlier values do not
  matter.
\<close>

theorem window_views_depend_on_last_values:
  assumes "drop (length us1 - c) (map fst us1) = drop (length us2 - c) (map fst us2)"
  shows "median (updates (SmoothedValue_init (Some c) f1) us1) =
           median (updates (SmoothedValue_init (Some c) f2) us2) \<and>
         avg (updates (SmoothedValue_init (Some c) f1) us1) =
           avg (updates (SmoothedValue_init (Some c) f2) us2) \<and>
         max_view (updates (SmoothedValue_init (Some c) f1) us1) =
           max_view (updates (SmoothedValue_init (Some c) f2) us2) \<and>
         value_view (updates (SmoothedValue_init (Some c) f1) us1) =
           value_view (updates (SmoothedValue_init (Some c) f2) us2)"
  using assms
  by (simp add: median_def avg_def max_view_def value_view_def fresh_updates_deque)

theorem window_views_depend_on_last_values_witness:
  "drop (length [(1::real, 1::int), (2, 1), (3, 1)] - 2) (map fst [(1::real, 1::int), (2, 1), (3, 1)])
     = drop (length [(9::real, 4::int), (7, 1), (2, 1), (3, 5)] - 2)
         (map fst [(9::real, 4::int), (7, 1), (2, 1), (3, 5)]) \<and>
   avg (updates (SmoothedValue_init (Some 2) None) [(1, 1), (2, 1), (3, 1)]) =
     avg (updates (SmoothedValue_init (Some 2) None) [(9, 4), (7, 1), (2, 1), (3, 5)]) \<and>
   max_view (updates (SmoothedValue_init (Some 2) None) [(1, 1), (2, 1), (3, 1)]) =
     max_view (updates (SmoothedValue_init (Some 2) None) [(9, 4), (7, 1), (2, 1), (3, 5)])"
  using window_views_depend_on_last_values
    [of "[(1, 1), (2, 1), (3, 1)]" 2 "[(9, 4), (7, 1), (2, 1), (3, 5)]" None None]
  by simp

text \<open>
  C8. Reading \<open>global_avg\<close> of a statistic whose count is 0, as it is before any update,
  raises ZeroDivisionError.
\<close>

theorem global_avg_count_zero_raises:
  "sv_count self = 0 \<Longrightarrow> global_avg self = Inl ZeroDivisionError"
  by (simp add: global_avg_def)

theorem global_avg_count_zero_raises_witness:
  "sv_count (SmoothedValue_init (Some 20) None) = 0 \<and>
   global_avg (SmoothedValue_init (Some 20) None) = Inl ZeroDivisionError"
  using global_avg_count_zero_raises[of "SmoothedValue_init (Some 20) None"]
  by (simp add: SmoothedValue_init_def)

text \<open>
  C10. On a freshly created SmoothedValue no read view yields a number: \<open>value\<close> raises
  IndexError and \<open>max\<close> raises ValueError on the empty window, \<open>median\<close> and \<open>avg\<close>
  are computed over an empty tensor and are NaN, and \<open>global_avg\<close> raises
  ZeroDivisionError.
\<close>

theorem fresh_views_undefined:
  "value_view (SmoothedValue_init window_size fmt) = Inl IndexError \<and>
   max_view (SmoothedValue_init window_size fmt) = Inl ValueError \<and>
   median (SmoothedValue_init window_size fmt) = NaN \<and>
   avg (SmoothedValue_init window_size fmt) = NaN \<and>
   global_avg (SmoothedValue_init window_size fmt) = Inl ZeroDivisionError"
  by (simp add: value_view_def max_view_def median_def avg_def global_avg_def
      SmoothedValue_init_def)

section \<open>Properties of the synchronisation\<close>

lemma py_int_of_int: "py_int (of_int k) = k"
  by (simp add: py_int_def)

lemma sum_list_of_int:
  "sum_list (map (\<lambda>x. real_of_int (f x)) xs) = of_int (sum_list (map f xs))"
  by (induction xs) simp_all

lemma sum_list_split_nth:
  fixes f :: "'a \<Rightarrow> 'b::comm_monoid_add"
  assumes "r < length xs"
  shows "f (xs ! r) + sum_list (map f (take r xs @ drop (Suc r) xs)) = sum_list (map f xs)"
proof -
  have "sum_list (map f xs) = sum_list (map f (take r xs @ xs ! r # drop (Suc r) xs))"
    using assms by (simp only: id_take_nth_drop[symmetric])
  then show ?thesis by (simp add: ac_simps)
qed

lemma all_reduce_world:
  assumes "r < length world"
  shows "all_reduce (peers_of world r) (tensor_of (world ! r)) =
           (of_int (sum_list (map sv_count world)), sum_list (map sv_total world))"
proof -
  have c: "real_of_int (sv_count (world ! r)) +
             sum_list (map (\<lambda>s. real_of_int (sv_count s)) (take r world @ drop (Suc r) world))
           = sum_list (map (\<lambda>s. real_of_int (sv_count s)) world)"
    using assms by (rule sum_list_split_nth)
  have t: "sv_total (world ! r) + sum_list (map sv_total (take r world @ drop (Suc r) world))
           = sum_list (map sv_total world)"
    using assms by (rule sum_list_split_nth)
  show ?thesis
    using c t by (simp add: all_reduce_def peers_of_def tensor_of_def comp_def sum_list_of_int)
qed

lemma synchronize_world_nth:
  assumes "r < length world"
  shows "synchronize_world world ! r =
     ([Barrier, AllReduce],
      (world ! r) \<lparr> sv_count := sum_list (map sv_count world),
                    sv_total := sum_list (map sv_total world) \<rparr>)"
proof -
  have "synchronize_world world ! r =
          SmoothedValue_synchronize_between_processes (peers_of world r) (world ! r)"
    using assms by (simp add: synchronize_world_def)
  also have "\<dots> = ([Barrier, AllReduce],
      (world ! r) \<lparr> sv_count := sum_list (map sv_count world),
                    sv_total := sum_list (map sv_total world) \<rparr>)"
    using all_reduce_world[OF assms]
    by (simp add: SmoothedValue_synchronize_between_processes_def tensor_of_def Let_def
        py_int_of_int)
  finally show ?thesis .
qed

lemma sync_meters_calls:
  "fst (sync_meters peers k ms) = concat (replicate (length ms) [Barrier, AllReduce])"
proof (induction ms arbitrary: k)
  case Nil
  then show ?case by simp
next
  case (Cons e ms)
  obtain name meter where e: "e = (name, meter)" by (cases e)
  show ?case
    using Cons[of "Suc k"]
    by (auto simp: e SmoothedValue_synchronize_between_processes_def Let_def
        split: prod.splits)
qed

lemma sync_meters_result:
  "snd (sync_meters peers k ms) =
     map (\<lambda>(i, (name, meter)).
            (name, snd (SmoothedValue_synchronize_between_processes (peers (k + i)) meter)))
       (zip [0..<length ms] ms)"
proof (induction ms arbitrary: k)
  case Nil
  then show ?case by simp
next
  case (Cons e ms)
  obtain name meter where e: "e = (name, meter)" by (cases e)
  have z: "zip [0..<Suc (length ms)] ((name, meter) # ms) =
             (0, (name, meter)) # map (\<lambda>(i, e). (Suc i, e)) (zip [0..<length ms] ms)"
    by (simp add: upt_conv_Cons map_Suc_upt[symmetric] zip_map1 del: upt_Suc)
  show ?case
    using Cons[of "Suc k"]
    by (simp add: e z case_prod_unfold comp_def Let_def del: upt_Suc)
qed

lemma synchronize_two:
  "synchronize_world [a, b] =
     [([Barrier, AllReduce],
       a\<lparr>sv_count := sv_count a + sv_count b, sv_total := sv_total a + sv_total b\<rparr>),
      ([Barrier, AllReduce],
       b\<lparr>sv_count := sv_count a + sv_count b, sv_total := sv_total a + sv_total b\<rparr>)]"
proof -
  have i: "py_int (real_of_int (sv_count a) + real_of_int (sv_count b)) = sv_count a + sv_count b"
    using py_int_of_int[of "sv_count a + sv_count b"] by simp
  have j: "py_int (real_of_int (sv_count b) + real_of_int (sv_count a)) = sv_count a + sv_count b"
    using py_int_of_int[of "sv_count a + sv_count b"] by (simp add: add.commute)
  show ?thesis
    by (simp add: synchronize_world_def SmoothedValue_synchronize_between_processes_def
        peers_of_def tensor_of_def all_reduce_def Let_def i j add.commute)
qed

lemma MetricLogger_synchronize_calls:
  "fst (MetricLogger_synchronize_between_processes peers ml) =
     concat (replicate (length (meters ml)) [Barrier, AllReduce])"
proof (cases "sync_meters peers 0 (meters ml)")
  case (Pair calls ms)
  then show ?thesis
    using sync_meters_calls[of peers 0 "meters ml"]
    by (simp add: MetricLogger_synchronize_between_processes_def)
qed

lemma MetricLogger_synchronize_meters:
  "meters (snd (MetricLogger_synchronize_between_processes peers ml)) =
     map (\<lambda>(i, (name, meter)).
            (name, snd (SmoothedValue_synchronize_between_processes (peers i) meter)))
       (zip [0..<length (meters ml)] (meters ml))"
proof (cases "sync_meters peers 0 (meters ml)")
  case (Pair calls ms)
  then show ?thesis
    using sync_meters_result[of peers 0 "meters ml"]
    by (simp add: MetricLogger_synchronize_between_processes_def)
qed

text \<open>
  C5. \<open>SmoothedValue.synchronize_between_processes\<close> makes one barrier and then one
  all-reduce, after which count and total of every process are the sums over all
  processes while the deque is the one the process had. \<open>MetricLogger\<close> applies it to
  each of its meters in order, so it makes one barrier and one all-reduce per meter. Two
  processes with (count, total) = (3, 9.0) and (5, 10.0) both end with count 8, total 19.0
  and global average 2.375.
\<close>

theorem synchronize_sums_count_and_total:
  "(\<forall>r < length world.
      synchronize_world world ! r =
        ([Barrier, AllReduce],
         (world ! r) \<lparr> sv_count := sum_list (map sv_count world),
                       sv_total := sum_list (map sv_total world) \<rparr>) \<and>
      sv_deque (snd (synchronize_world world ! r)) = sv_deque (world ! r)) \<and>
   fst (MetricLogger_synchronize_between_processes peers ml) =
     concat (replicate (length (meters ml)) [Barrier, AllReduce]) \<and>
   meters (snd (MetricLogger_synchronize_between_processes peers ml)) =
     map (\<lambda>(i, (name, meter)).
            (name, snd (SmoothedValue_synchronize_between_processes (peers i) meter)))
       (zip [0..<length (meters ml)] (meters ml)) \<and>
   (sv_count a = 3 \<and> sv_total a = 9 \<and> sv_count b = 5 \<and> sv_total b = 10 \<longrightarrow>
      map (\<lambda>(calls, s). (sv_count s, sv_total s, global_avg s, sv_deque s))
        (synchronize_world [a, b]) =
        [(8, 19, Inr 2.375, sv_deque a), (8, 19, Inr 2.375, sv_deque b)])"
proof (intro conjI)
  show "\<forall>r < length world.
      synchronize_world world ! r =
        ([Barrier, AllReduce],
         (world ! r) \<lparr> sv_count := sum_list (map sv_count world),
                       sv_total := sum_list (map sv_total world) \<rparr>) \<and>
      sv_deque (snd (synchronize_world world ! r)) = sv_deque (world ! r)"
    by (simp add: synchronize_world_nth)
  show "fst (MetricLogger_synchronize_between_processes peers ml) =
     concat (replicate (length (meters ml)) [Barrier, AllReduce])"
    by (rule MetricLogger_synchronize_calls)
  show "meters (snd (MetricLogger_synchronize_between_processes peers ml)) =
     map (\<lambda>(i, (name, meter)).
            (name, snd (SmoothedValue_synchronize_between_processes (peers i) meter)))
       (zip [0..<length (meters ml)] (meters ml))"
    by (rule MetricLogger_synchronize_meters)
  show "sv_count a = 3 \<and> sv_total a = 9 \<and> sv_count b = 5 \<and> sv_total b = 10 \<longrightarrow>
      map (\<lambda>(calls, s). (sv_count s, sv_total s, global_avg s, sv_deque s))
        (synchronize_world [a, b]) =
        [(8, 19, Inr 2.375, sv_deque a), (8, 19, Inr 2.375, sv_deque b)]"
    by (simp add: synchronize_two global_avg_def)
qed

theorem synchronize_sums_count_and_total_witness:
  "(1::nat) < length [updates (SmoothedValue_init (Some 2) None) [(3, 3)],
                 updates (SmoothedValue_init (Some 2) None) [(1, 1), (2, 2), (1, 1), (4, 1)]] \<and>
   map (\<lambda>(calls, s). (sv_count s, sv_total s, global_avg s, sv_deque s))
     (synchronize_world [updates (SmoothedValue_init (Some 2) None) [(3, 3)],
                 updates (SmoothedValue_init (Some 2) None) [(1, 1), (2, 2), (1, 1), (4, 1)]]) =
   [(8, 19, Inr (19 / 8), [3]), (8, 19, Inr (19 / 8), [1, 4])]"
proof -
  let ?a = "updates (SmoothedValue_init (Some 2) None) [(3, 3)]"
  let ?b = "updates (SmoothedValue_init (Some 2) None) [(1, 1), (2, 2), (1, 1), (4, 1)]"
  have a: "sv_count ?a = 3 \<and> sv_total ?a = 9 \<and> sv_deque ?a = [3]"
    by (simp add: SmoothedValue_update_def SmoothedValue_init_def deque_append_def)
  have b: "sv_count ?b = 5 \<and> sv_total ?b = 10 \<and> sv_deque ?b = [1, 4]"
    by (simp add: SmoothedValue_update_def SmoothedValue_init_def deque_append_def)
  have "map (\<lambda>(calls, s). (sv_count s, sv_total s, global_avg s, sv_deque s))
        (synchronize_world [?a, ?b]) =
        [(8, 19, Inr 2.375, sv_deque ?a), (8, 19, Inr 2.375, sv_deque ?b)]"
    using synchronize_sums_count_and_total[of "[?a, ?b]" "\<lambda>k. []" "MetricLogger_init [] None" ?a ?b] a b
    by blast
  then show ?thesis using a b by (simp del: updates.simps)
qed

section \<open>Properties of MetricLogger\<close>

lemma getattr_hook:
  "(map_of (meters self) name = Some m \<longrightarrow> MetricLogger_getattr self name = Inr (Meter m)) \<and>
   (map_of (meters self) name = None \<and> name \<notin> {''meters'', ''delimiter'', ''log''}
      \<longrightarrow> MetricLogger_getattr self name = Inl AttributeError)"
  by (simp add: MetricLogger_getattr_def instance_dict_def)

text \<open>
  C9, as amended. For a name that ordinary lookup does not find, that is a name other
  than the instance attributes \<open>meters\<close>, \<open>delimiter\<close>, \<open>log\<close>, the methods of the
  class and the built-in class attributes, attribute-style lookup returns the
  SmoothedValue registered under the name, and raises AttributeError when no meter is
  registered under it.
\<close>

theorem attribute_lookup_of_meter:
  "(map_of (meters self) name = Some m \<and> name \<notin> {''meters'', ''delimiter'', ''log''} \<and>
    name \<notin> set class_methods \<and> name \<notin> set builtin
      \<longrightarrow> attribute_lookup builtin self name = Inr (Meter m)) \<and>
   (map_of (meters self) name = None \<and> name \<notin> {''meters'', ''delimiter'', ''log''} \<and>
    name \<notin> set class_methods \<and> name \<notin> set builtin
      \<longrightarrow> attribute_lookup builtin self name = Inl AttributeError)"
  using getattr_hook[of self name m]
  by (auto simp: attribute_lookup_def instance_dict_def)

theorem attribute_lookup_of_meter_witness:
  "map_of (meters (MetricLogger_update (MetricLogger_init ''  '' None) [(''loss'', 1)])) ''loss''
     = Some (SmoothedValue_update (SmoothedValue_init (Some 20) None) 1 1) \<and>
   ''loss'' \<notin> {''meters'', ''delimiter'', ''log''} \<and> ''loss'' \<notin> set class_methods \<and>
   ''loss'' \<notin> set [''__class__'', ''__dict__'', ''__doc__'', ''__repr__''] \<and>
   attribute_lookup [''__class__'', ''__dict__'', ''__doc__'', ''__repr__'']
       (MetricLogger_update (MetricLogger_init ''  '' None) [(''loss'', 1)]) ''loss''
     = Inr (Meter (SmoothedValue_update (SmoothedValue_init (Some 20) None) 1 1)) \<and>
   map_of (meters (MetricLogger_update (MetricLogger_init ''  '' None) [(''loss'', 1)])) ''acc1'' = None \<and>
   ''acc1'' \<notin> {''meters'', ''delimiter'', ''log''} \<and> ''acc1'' \<notin> set class_methods \<and>
   ''acc1'' \<notin> set [''__class__'', ''__dict__'', ''__doc__'', ''__repr__''] \<and>
   attribute_lookup [''__class__'', ''__dict__'', ''__doc__'', ''__repr__'']
       (MetricLogger_update (MetricLogger_init ''  '' None) [(''loss'', 1)]) ''acc1''
     = Inl AttributeError"
proof -
  let ?ml = "MetricLogger_update (MetricLogger_init ''  '' None) [(''loss'', 1)]"
  let ?m = "SmoothedValue_update (SmoothedValue_init (Some 20) None) 1 1"
  let ?b = "[''__class__'', ''__dict__'', ''__doc__'', ''__repr__'']"
  have m: "meters ?ml = [(''loss'', ?m)]"
    by (simp add: MetricLogger_update_def MetricLogger_init_def meters_getitem_def
        default_window_size_def)
  have l1: "map_of (meters ?ml) ''loss'' = Some ?m" by (simp add: m)
  have l2: "''loss'' \<notin> {''meters'', ''delimiter'', ''log''}" by simp
  have l3: "''loss'' \<notin> set class_methods" by (simp add: class_methods_def)
  have l4: "''loss'' \<notin> set ?b" by simp
  have a1: "map_of (meters ?ml) ''acc1'' = None" by (simp add: m)
  have a2: "''acc1'' \<notin> {''meters'', ''delimiter'', ''log''}" by simp
  have a3: "''acc1'' \<notin> set class_methods" by (simp add: class_methods_def)
  have a4: "''acc1'' \<notin> set ?b" by simp
  have l: "attribute_lookup ?b ?ml ''loss'' = Inr (Meter ?m)"
    using attribute_lookup_of_meter[of ?ml "''loss''" ?m ?b, THEN conjunct1]
    by (rule mp) (intro conjI l1 l2 l3 l4)
  have a: "attribute_lookup ?b ?ml ''acc1'' = Inl AttributeError"
    using attribute_lookup_of_meter[of ?ml "''acc1''" ?m ?b, THEN conjunct2]
    by (rule mp) (intro conjI a1 a2 a3 a4)
  show ?thesis
    by (intro conjI l1 l2 l3 l4 l a1 a2 a3 a4 a)
qed

text \<open>
  C9 as stated fails at names that ordinary lookup finds. A meter registered as
  \<open>delimiter\<close> is not what \<open>logger.delimiter\<close> returns: that is the delimiter string.
  And \<open>update\<close>, which is no registered metric, does not raise: it is the method.
\<close>

theorem attribute_lookup_counterexample:
  "map_of (meters (MetricLogger_update (MetricLogger_init ''  '' None) [(''delimiter'', 1)]))
       ''delimiter''
     = Some (SmoothedValue_update (SmoothedValue_init (Some 20) None) 1 1) \<and>
   attribute_lookup [''__class__'', ''__dict__'', ''__doc__'', ''__repr__'']
       (MetricLogger_update (MetricLogger_init ''  '' None) [(''delimiter'', 1)]) ''delimiter''
     = Inr (DelimiterAttr ''  '') \<and>
   map_of (meters (MetricLogger_init ''  '' None)) ''update'' = None \<and>
   attribute_lookup [''__class__'', ''__dict__'', ''__doc__'', ''__repr__'']
       (MetricLogger_init ''  '' None) ''update''
     = Inr (Method ''update'')"
  by (simp add: MetricLogger_update_def MetricLogger_init_def meters_getitem_def
      default_window_size_def attribute_lookup_def instance_dict_def class_methods_def)

section \<open>Properties of the contrastive losses\<close>

lemma length_normalize_row: "length (normalize_row v) = length v"
  by (simp add: normalize_row_def)

lemma length_normalize: "length (F_normalize x) = length x"
  by (simp add: F_normalize_def)

lemma sint_least: "sint (x :: 64 word) = - (2 ^ 63) \<Longrightarrow> x = 2 ^ 63"
proof -
  assume a: "sint x = - (2 ^ 63)"
  have "x = word_of_int (sint x)" by simp
  also have "\<dots> = word_of_int (- (2 ^ 63))" using a by simp
  also have "\<dots> = (2 ^ 63 :: 64 word)" by simp
  finally show ?thesis .
qed

lemma sint_of_least: "sint (2 ^ 63 :: 64 word) = - (2 ^ 63)"
  by simp

text \<open>
  What the comparison of the mask decides: the labels differ, and their difference is not
  the least int64 (written \<open>2 ^ 63\<close> as a 64-bit word).
\<close>

lemma torch_abs_pos: "0 <s torch_abs x \<longleftrightarrow> x \<noteq> 0 \<and> x \<noteq> 2 ^ 63"
proof (cases "x <s 0")
  case False
  then have nn: "0 \<le> sint x" by (simp add: word_sless_alt)
  have "x \<noteq> 2 ^ 63" using nn sint_of_least by auto
  moreover have "0 < sint x \<longleftrightarrow> x \<noteq> 0" using nn
    by (metis less_le signed_eq_0_iff)
  ultimately show ?thesis using False by (simp add: torch_abs_def word_sless_alt)
next
  case True
  then have neg: "sint x < 0" by (simp add: word_sless_alt)
  then have x0: "x \<noteq> 0" by auto
  have lo: "- (2 ^ 63) \<le> sint x" using sint_ge[of x] by simp
  show ?thesis
  proof (cases "sint x = - (2 ^ 63)")
    case True
    then have "x = 2 ^ 63" by (rule sint_least)
    then show ?thesis by (simp add: torch_abs_def word_sless_alt)
  next
    case False
    then have ne: "x \<noteq> 2 ^ 63" using sint_of_least by auto
    have rng: "- (2 ^ 63) \<le> - sint x" "- sint x < 2 ^ 63" using lo neg False by simp_all
    have "sint (- x) = signed_take_bit 63 (- sint x)"
      by (simp add: sint_word_ariths)
    also have "\<dots> = - sint x"
      using rng by (simp add: signed_take_bit_int_eq_self)
    finally have "0 < sint (- x)" using neg by simp
    then show ?thesis using True x0 ne \<open>x <s 0\<close> by (simp add: torch_abs_def word_sless_alt)
  qed
qed

text \<open>Two non-negative labels, such as class indices, never differ by the least int64.\<close>

lemma nonneg_no_wrap:
  assumes "0 \<le>s (a :: 64 word)" "0 \<le>s b"
  shows "a - b \<noteq> 2 ^ 63"
proof
  assume w: "a - b = 2 ^ 63"
  have a: "0 \<le> sint a" "sint a < 2 ^ 63"
    using assms(1) sint_lt[of a] by (simp_all add: word_sle_eq)
  have b: "0 \<le> sint b" "sint b < 2 ^ 63"
    using assms(2) sint_lt[of b] by (simp_all add: word_sle_eq)
  have "sint (a - b) = signed_take_bit 63 (sint a - sint b)" by (simp add: sint_word_ariths)
  also have "\<dots> = sint a - sint b"
    using a b by (simp add: signed_take_bit_int_eq_self)
  finally have "- (2 ^ 63) < sint (a - b)" using a b by simp
  then show False using w by simp
qed

lemma list_all_upt: "list_all P [0..<N] \<longleftrightarrow> (\<forall>n<N. P n)"
  by (auto simp: list_all_iff)

lemma einsum_Inr:
  assumes "\<forall>u\<in>set q. \<forall>v\<in>set k. length u = length v"
  shows "einsum_nc_mc q k = Inr (map (\<lambda>u. map (dot u) k) q)"
  using assms by (simp add: einsum_nc_mc_def list_all_iff)

lemma einsum_cases:
  "einsum_nc_mc q k = Inl RuntimeError \<or> einsum_nc_mc q k = Inr (map (\<lambda>u. map (dot u) k) q)"
  by (simp add: einsum_nc_mc_def)

lemma set_positives_Inr:
  assumes "\<forall>n<length lmask. n + length lmask * rank < M"
  shows "set_positives lmask M rank =
           Inr (map (\<lambda>(n, row). row[n + length lmask * rank := True]) (zip [0..<length lmask] lmask))"
  using assms by (simp add: set_positives_def list_all_upt Let_def)

lemma masked_fill_same:
  assumes "C = M" "length lmask = length logits"
  shows "masked_fill logits M lmask C v =
           Inr (map (\<lambda>(mrow, lrow). map (\<lambda>(b, x). if b then v else x) (zip mrow lrow))
                  (zip lmask logits))"
  using assms by (simp add: masked_fill_def broadcast_to_def)

lemma single_gather:
  "get_world_size d = 1 \<Longrightarrow> get_rank d = 0 \<Longrightarrow> concat_all_gather d peers x = x"
  by (simp add: concat_all_gather_def)

lemma fill_none:
  assumes "length mrow = length lrow" "\<forall>b\<in>set mrow. \<not> b"
  shows "map (\<lambda>(b, x). if b then v else x) (zip mrow lrow) = lrow"
proof (rule nth_equalityI)
  show "length (map (\<lambda>(b, x). if b then v else x) (zip mrow lrow)) = length lrow"
    using assms by simp
next
  fix i assume "i < length (map (\<lambda>(b, x). if b then v else x) (zip mrow lrow))"
  then have i: "i < length mrow" "i < length lrow" using assms by simp_all
  then have "\<not> mrow ! i" using assms(2) by (metis nth_mem)
  then show "map (\<lambda>(b, x). if b then v else x) (zip mrow lrow) ! i = lrow ! i"
    using i by simp
qed

lemma supervised_masks_equal_labels_aux:
  fixes d q k label temp
  defines "kg \<equiv> (if is_initialized d then concat_all_gather d (peer_keys d) (F_normalize k) else F_normalize k)"
      and "lk \<equiv> (if is_initialized d then concat_all_gather d (peer_labels d) label else label)"
      and "rank \<equiv> (if is_initialized d then get_rank d else 0)"
  assumes len: "length label = length q"
      and lenk: "length lk = length kg"
      and pos: "\<forall>n<length q. n + length q * rank < length kg"
      and feat: "\<forall>u\<in>set q. \<forall>v\<in>set kg. length u = length v"
  shows "supervised_logits d q k label temp =
           Inr (map (\<lambda>n. map (\<lambda>m. if (label ! n = lk ! m \<or> label ! n - lk ! m = 2 ^ 63) \<and>
                                        m \<noteq> n + length q * rank then NInf
                                     else fl_div (dot (normalize_row (q ! n)) (kg ! m)) temp)
                            [0..<length kg])
                  [0..<length q])"
proof -
  let ?N = "length q"
  let ?M = "length kg"
  let ?mask = "label_mask label lk"
  let ?mask' = "map (\<lambda>(n, row). row[n + ?N * rank := True]) (zip [0..<?N] ?mask)"
  let ?dots = "map (\<lambda>u. map (dot u) kg) (F_normalize q)"
  have lm: "length ?mask = ?N" by (simp add: label_mask_def len)
  have sp: "set_positives ?mask (length lk) rank = Inr ?mask'"
    using set_positives_Inr[of ?mask rank "length lk"] pos lenk by (simp add: lm)
  have feat': "\<forall>u\<in>set (F_normalize q). \<forall>v\<in>set kg. length u = length v"
    using feat by (auto simp: F_normalize_def length_normalize_row)
  have es: "einsum_nc_mc (F_normalize q) kg = Inr ?dots"
    using feat' by (rule einsum_Inr)
  have mf: "masked_fill (div_temp ?dots temp) ?M (map (map Not) ?mask') (length lk) NInf =
          Inr (map (\<lambda>(mrow, lrow). map (\<lambda>(b, x). if b then NInf else x) (zip mrow lrow))
                  (zip (map (map Not) ?mask') (div_temp ?dots temp)))"
    by (rule masked_fill_same) (simp_all add: lenk lm div_temp_def length_normalize)
  have unfold: "supervised_logits d q k label temp =
          Inr (map (\<lambda>(mrow, lrow). map (\<lambda>(b, x). if b then NInf else x) (zip mrow lrow))
                  (zip (map (map Not) ?mask') (div_temp ?dots temp)))"
    unfolding supervised_logits_def Let_def
    using sp es mf by (simp add: kg_def lk_def rank_def)
  have rows: "map (\<lambda>(mrow, lrow). map (\<lambda>(b, x). if b then NInf else x) (zip mrow lrow))
                  (zip (map (map Not) ?mask') (div_temp ?dots temp)) =
        map (\<lambda>n. map (\<lambda>m. if (label ! n = lk ! m \<or> label ! n - lk ! m = 2 ^ 63) \<and>
                                        m \<noteq> n + ?N * rank then NInf
                                     else fl_div (dot (normalize_row (q ! n)) (kg ! m)) temp)
                            [0..<?M])
                  [0..<?N]" (is "?L = ?R")
  proof (rule nth_equalityI)
    show "length ?L = length ?R" by (simp add: lm div_temp_def length_normalize)
  next
    fix n assume "n < length ?L"
    then have n: "n < ?N" by (simp add: lm div_temp_def length_normalize)
    have mrow: "map (map Not) ?mask' ! n = map Not ((map (\<lambda>b. 0 <s torch_abs (label ! n - b)) lk)[n + ?N * rank := True])"
      using n by (simp add: lm label_mask_def len)
    have lrow: "div_temp ?dots temp ! n = map (\<lambda>v. fl_div (dot (normalize_row (q ! n)) v) temp) kg"
      using n by (simp add: div_temp_def F_normalize_def)
    have "?L ! n = map (\<lambda>(b, x). if b then NInf else x)
                     (zip (map Not ((map (\<lambda>b. 0 <s torch_abs (label ! n - b)) lk)[n + ?N * rank := True]))
                          (map (\<lambda>v. fl_div (dot (normalize_row (q ! n)) v) temp) kg))"
      using n by (simp add: lm div_temp_def length_normalize F_normalize_def label_mask_def len comp_def)
    also have "\<dots> = map (\<lambda>m. if (label ! n = lk ! m \<or> label ! n - lk ! m = 2 ^ 63) \<and>
                                        m \<noteq> n + ?N * rank then NInf
                                     else fl_div (dot (normalize_row (q ! n)) (kg ! m)) temp)
                            [0..<?M]"
      using n pos by (intro nth_equalityI) (auto simp: lenk nth_list_update torch_abs_pos)
    finally show "?L ! n = ?R ! n" using n by simp
  qed
  show ?thesis using unfold rows by simp
qed

text \<open>
  C2, as amended. When the labels are per-sample (as many as queries, and as many gathered
  labels as gathered keys) and every positive column exists, the logits that
  \<open>supervised_contrastive_loss\<close> hands to the cross entropy are \<open>-inf\<close> exactly at the
  pairs \<open>(n, m)\<close> that are not the positive pair \<open>(n, n + N * rank)\<close> and whose labels
  are equal, or differ by the least int64 (\<open>2 ^ 63\<close> as a word), where the int64
  comparison of the code takes them for equal; two non-negative labels never do
  (\<open>nonneg_no_wrap\<close>). Every other pair, the positive pair and the pairs with different
  labels, keeps its similarity over the temperature.
\<close>

theorem supervised_masks_equal_labels:
  fixes d q k label temp
  defines "kg \<equiv> (if is_initialized d then concat_all_gather d (peer_keys d) (F_normalize k)
                  else F_normalize k)"
      and "lk \<equiv> (if is_initialized d then concat_all_gather d (peer_labels d) label else label)"
      and "rank \<equiv> (if is_initialized d then get_rank d else 0)"
  assumes "length label = length q"
      and "length lk = length kg"
      and "\<forall>n<length q. n + length q * rank < length kg"
      and "\<forall>u\<in>set q. \<forall>v\<in>set kg. length u = length v"
  shows "supervised_logits d q k label temp =
           Inr (map (\<lambda>n. map (\<lambda>m. if (label ! n = lk ! m \<or> label ! n - lk ! m = 2 ^ 63) \<and>
                                        m \<noteq> n + length q * rank then NInf
                                     else fl_div (dot (normalize_row (q ! n)) (kg ! m)) temp)
                            [0..<length kg])
                  [0..<length q])"
  unfolding kg_def lk_def rank_def
  using assms(4-7) unfolding kg_def lk_def rank_def
  by (rule supervised_masks_equal_labels_aux)

theorem supervised_masks_equal_labels_witness:
  "length [7, 7 :: 64 word] = length [[1, 0], [0, 1 :: real]] \<and>
   supervised_logits single_process [[1, 0], [0, 1]] [[1, 0], [0, 1]] [7, 7] (1 / 5) =
     Inr [[Fin 5, NInf], [NInf, Fin 5]]"
proof -
  have r: "normalize_row [1, 0] = [1, 0]" "normalize_row [0, 1] = [0, 1]"
    by (simp_all add: normalize_row_def l2_norm_def normalize_eps_def)
  have n: "F_normalize [[1, 0], [0, 1]] = [[1, 0], [0, 1]]"
    by (simp add: F_normalize_def r)
  show ?thesis
    using supervised_masks_equal_labels[where d = single_process and q = "[[1, 0], [0, 1]]"
        and k = "[[1, 0], [0, 1]]" and label = "[7, 7]" and temp = "1 / 5"]
    by (simp add: single_process_def concat_all_gather_def n r dot_def fl_div_def upt_conv_Cons)
qed

text \<open>
  C2 as stated fails. With labels \<open>[0, 1]\<close> in a single process the pair \<open>(0, 1)\<close> has
  different labels and is not the positive pair \<open>(0, 0)\<close>, yet its logit stays the finite
  similarity 0 instead of \<open>-inf\<close>: the code masks equal labels, not different ones.
\<close>

theorem supervised_mask_counterexample:
  "[0, 1 :: 64 word] ! 0 \<noteq> [0, 1] ! 1 \<and> (1 :: nat) \<noteq> 0 + 2 * 0 \<and>
   supervised_logits single_process [[1, 0], [0, 1]] [[1, 0], [0, 1]] [0, 1] (1 / 5) =
     Inr [[Fin 5, Fin 0], [Fin 0, Fin 5]]"
proof -
  have n: "F_normalize [[1, 0], [0, 1]] = [[1, 0], [0, 1]]"
    by (simp add: F_normalize_def normalize_row_def l2_norm_def normalize_eps_def)
  show ?thesis
    by (simp add: supervised_logits_def single_process_def n concat_all_gather_def
        label_mask_def torch_abs_pos set_positives_def einsum_nc_mc_def dot_def div_temp_def
        fl_div_def masked_fill_def broadcast_to_def Let_def)
qed

lemma map_index_form: "map (\<lambda>i. f (xs ! i)) [0..<length xs] = map f xs"
  by (rule nth_equalityI) simp_all

lemma logits_index_form:
  "div_temp (map (\<lambda>u. map (dot u) kg) (F_normalize q)) temp =
     map (\<lambda>n. map (\<lambda>m. fl_div (dot (normalize_row (q ! n)) (kg ! m)) temp) [0..<length kg])
       [0..<length q]"
proof -
  have row: "\<And>u. map (\<lambda>m. fl_div (dot u (kg ! m)) temp) [0..<length kg] =
                  map (\<lambda>v. fl_div (dot u v) temp) kg"
    by (rule map_index_form)
  have "map (\<lambda>n. map (\<lambda>m. fl_div (dot (normalize_row (q ! n)) (kg ! m)) temp) [0..<length kg])
          [0..<length q] =
        map (\<lambda>u. map (\<lambda>v. fl_div (dot (normalize_row u) v) temp) kg) q"
    by (simp only: row) (rule map_index_form)
  then show ?thesis by (simp add: div_temp_def F_normalize_def comp_def)
qed

lemma einsum_normalize_feat:
  assumes "einsum_nc_mc (F_normalize q) kg = Inr dots"
  shows "\<forall>u\<in>set q. \<forall>v\<in>set kg. length u = length v"
proof (intro ballI)
  fix u v assume u: "u \<in> set q" and v: "v \<in> set kg"
  have all: "\<forall>u\<in>set (F_normalize q). \<forall>v\<in>set kg. length u = length v"
    using assms by (simp add: einsum_nc_mc_def list_all_iff split: if_splits)
  have "normalize_row u \<in> set (F_normalize q)" using u by (simp add: F_normalize_def)
  with all v have "length (normalize_row u) = length v" by blast
  then show "length u = length v" by (simp add: length_normalize_row)
qed

text \<open>
  C3, as amended. In an initialised process group of a single process, with one label per
  sample, as many keys as queries, and labels that are pairwise distinct and of which no
  two differ by the least int64 (as is the case for non-negative class indices,
  \<open>nonneg_no_wrap\<close>), \<open>supervised_contrastive_loss\<close> returns what
  \<open>contrastive_loss\<close> returns on the same \<open>q\<close>, \<open>k\<close> and temperature, be it a loss
  or the shape error of the einsum.
\<close>

theorem supervised_equals_unsupervised_on_distinct_labels:
  assumes init: "is_initialized d"
      and single: "get_world_size d = 1" "get_rank d = 0"
      and len: "length label = length q" "length k = length q"
      and dist: "distinct label"
      and nowrap: "\<forall>a\<in>set label. \<forall>b\<in>set label. a - b \<noteq> 2 ^ 63"
  shows "supervised_contrastive_loss d q k label temp = contrastive_loss d q k temp"
proof -
  let ?kg = "F_normalize k"
  have kg: "(if is_initialized d then concat_all_gather d (peer_keys d) ?kg else ?kg) = ?kg"
    using single by (simp add: single_gather)
  have lk: "(if is_initialized d then concat_all_gather d (peer_labels d) label else label) = label"
    using single by (simp add: single_gather)
  have rk: "(if is_initialized d then get_rank d else 0) = 0"
    using single by simp
  have mask_ok: "set_positives (label_mask label label) (length label) 0 =
      Inr (map (\<lambda>(n, row). row[n + length (label_mask label label) * 0 := True])
             (zip [0..<length (label_mask label label)] (label_mask label label)))"
    by (rule set_positives_Inr) (simp add: label_mask_def)
  show ?thesis
  proof (cases "einsum_nc_mc (F_normalize q) ?kg")
    case (Inl e)
    have "supervised_logits d q k label temp = Inl e"
      unfolding supervised_logits_def Let_def kg lk rk using mask_ok Inl by simp
    then have "supervised_contrastive_loss d q k label temp = Inl e"
      by (simp add: supervised_contrastive_loss_def)
    moreover have "contrastive_loss d q k temp = Inl e"
      unfolding contrastive_loss_def Let_def using Inl single init by (simp add: single_gather)
    ultimately show ?thesis by simp
  next
    case (Inr dots)
    have dots: "dots = map (\<lambda>u. map (dot u) ?kg) (F_normalize q)"
      using Inr einsum_cases[of "F_normalize q" ?kg] by simp
    have feat: "\<forall>u\<in>set q. \<forall>v\<in>set ?kg. length u = length v"
      using Inr by (rule einsum_normalize_feat)
    have sl: "supervised_logits d q k label temp =
           Inr (map (\<lambda>n. map (\<lambda>m. if (label ! n = label ! m \<or> label ! n - label ! m = 2 ^ 63) \<and>
                                        m \<noteq> n + length q * 0 then NInf
                                     else fl_div (dot (normalize_row (q ! n)) (?kg ! m)) temp)
                            [0..<length ?kg])
                  [0..<length q])"
      using supervised_masks_equal_labels_aux[of label q d k temp] len feat single
      by (simp add: single_gather length_normalize)
    have same: "map (\<lambda>n. map (\<lambda>m. if (label ! n = label ! m \<or> label ! n - label ! m = 2 ^ 63) \<and>
                                        m \<noteq> n + length q * 0 then NInf
                                     else fl_div (dot (normalize_row (q ! n)) (?kg ! m)) temp)
                            [0..<length ?kg])
                  [0..<length q] =
             map (\<lambda>n. map (\<lambda>m. fl_div (dot (normalize_row (q ! n)) (?kg ! m)) temp)
                            [0..<length ?kg])
                  [0..<length q]"
      using dist len nowrap by (auto simp: length_normalize nth_eq_iff_index_eq)
    have sl': "supervised_logits d q k label temp = Inr (div_temp dots temp)"
      using sl same by (simp add: dots logits_index_form)
    have "supervised_contrastive_loss d q k label temp =
            scale_loss (CrossEntropyLoss (div_temp dots temp)
                          (positive_labels (length (div_temp dots temp)) 0)) (2 * temp)"
      by (simp add: supervised_contrastive_loss_def sl' rk Let_def)
    moreover have "contrastive_loss d q k temp =
            scale_loss (CrossEntropyLoss (div_temp dots temp)
                          (positive_labels (length (div_temp dots temp)) 0)) (2 * temp)"
      unfolding contrastive_loss_def Let_def using Inr single init by (simp add: single_gather)
    ultimately show ?thesis by simp
  qed
qed

theorem supervised_equals_unsupervised_on_distinct_labels_witness:
  "is_initialized single_process \<and>
   get_world_size single_process = 1 \<and> get_rank single_process = 0 \<and>
   length [4, 9 :: 64 word] = length [[1, 0], [0, 1 :: real]] \<and>
   length [[3, 4], [0, 2 :: real]] = length [[1, 0], [0, 1 :: real]] \<and>
   distinct [4, 9 :: 64 word] \<and>
   supervised_contrastive_loss single_process [[1, 0], [0, 1]] [[3, 4], [0, 2]] [4, 9] (1 / 5) =
     contrastive_loss single_process [[1, 0], [0, 1]] [[3, 4], [0, 2]] (1 / 5)"
proof -
  have nw: "\<forall>a\<in>set [4, 9 :: 64 word]. \<forall>b\<in>set [4, 9 :: 64 word]. a - b \<noteq> 2 ^ 63"
    by simp
  show ?thesis
    using supervised_equals_unsupervised_on_distinct_labels
      [of single_process "[4, 9]" "[[1, 0], [0, 1]]" "[[3, 4], [0, 2]]" "1 / 5"] nw
    by (simp add: single_process_def)
qed

text \<open>
  C3 as stated fails twice. In a single process that has no process group
  \<open>contrastive_loss\<close> raises where \<open>supervised_contrastive_loss\<close> returns a loss. And in
  an initialised single process the distinct labels \<open>2 ^ 63 - 1\<close> and \<open>-1\<close> differ by
  the least int64, so the supervised loss masks the two negatives and is 0, while the
  unsupervised loss is not.
\<close>

theorem supervised_differs_counterexample:
  "distinct [4, 9 :: 64 word] \<and>
   contrastive_loss (single_process \<lparr> is_initialized := False \<rparr>)
       [[1, 0], [0, 1]] [[1, 0], [0, 1]] (1 / 5) = Inl RuntimeError \<and>
   supervised_contrastive_loss (single_process \<lparr> is_initialized := False \<rparr>)
       [[1, 0], [0, 1]] [[1, 0], [0, 1]] [4, 9] (1 / 5) =
     Inr (Fin ((ln (exp 5 + 1) - 5) * (2 / 5))) \<and>
   distinct [2 ^ 63 - 1, - 1 :: 64 word] \<and>
   supervised_contrastive_loss single_process
       [[1, 0], [0, 1]] [[1, 0], [0, 1]] [2 ^ 63 - 1, - 1] (1 / 5) = Inr (Fin 0) \<and>
   contrastive_loss single_process [[1, 0], [0, 1]] [[1, 0], [0, 1]] (1 / 5) =
     Inr (Fin ((ln (exp 5 + 1) - 5) * (2 / 5))) \<and>
   (ln (exp 5 + 1) - 5) * (2 / 5) \<noteq> (0 :: real)"
proof -
  have n: "F_normalize [[1, 0], [0, 1]] = [[1, 0], [0, 1]]"
    by (simp add: F_normalize_def normalize_row_def l2_norm_def normalize_eps_def)
  have ce: "CrossEntropyLoss [[Fin 5, Fin 0], [Fin 0, Fin 5]] [0, Suc 0] =
              Inr (Fin (ln (exp 5 + 1) - 5))"
    by (simp add: CrossEntropyLoss_def log_softmax_at_def fl_mean_def add.commute)
  have ce0: "CrossEntropyLoss [[Fin 5, NInf], [NInf, Fin 5]] [0, Suc 0] = Inr (Fin 0)"
    by (simp add: CrossEntropyLoss_def log_softmax_at_def fl_mean_def)
  have u: "contrastive_loss single_process [[1, 0], [0, 1]] [[1, 0], [0, 1]] (1 / 5) =
             Inr (Fin ((ln (exp 5 + 1) - 5) * (2 / 5)))"
    by (simp add: contrastive_loss_def single_process_def n concat_all_gather_def
        einsum_nc_mc_def dot_def div_temp_def fl_div_def positive_labels_def ce scale_loss_def
        Let_def)
  have r: "contrastive_loss (single_process \<lparr> is_initialized := False \<rparr>)
       [[1, 0], [0, 1]] [[1, 0], [0, 1]] (1 / 5) = Inl RuntimeError"
    by (simp add: contrastive_loss_def single_process_def)
  have l1: "supervised_logits (single_process \<lparr> is_initialized := False \<rparr>)
       [[1, 0], [0, 1]] [[1, 0], [0, 1]] [4, 9] (1 / 5) = Inr [[Fin 5, Fin 0], [Fin 0, Fin 5]]"
    by (simp add: supervised_logits_def single_process_def n concat_all_gather_def
        label_mask_def torch_abs_pos set_positives_def einsum_nc_mc_def dot_def div_temp_def
        fl_div_def masked_fill_def broadcast_to_def Let_def)
  have s1: "supervised_contrastive_loss (single_process \<lparr> is_initialized := False \<rparr>)
       [[1, 0], [0, 1]] [[1, 0], [0, 1]] [4, 9] (1 / 5) =
     Inr (Fin ((ln (exp 5 + 1) - 5) * (2 / 5)))"
    by (simp add: supervised_contrastive_loss_def l1 positive_labels_def ce scale_loss_def)
  have i0: "is_initialized single_process" "get_rank single_process = 0"
    by (simp_all add: single_process_def)
  have l2: "supervised_logits single_process
       [[1, 0], [0, 1]] [[1, 0], [0, 1]] [2 ^ 63 - 1, - 1] (1 / 5) =
         Inr [[Fin 5, NInf], [NInf, Fin 5]]"
    by (simp add: supervised_logits_def single_process_def n concat_all_gather_def
        label_mask_def torch_abs_pos set_positives_def einsum_nc_mc_def dot_def div_temp_def
        fl_div_def masked_fill_def broadcast_to_def Let_def)
  have s2: "supervised_contrastive_loss single_process
       [[1, 0], [0, 1]] [[1, 0], [0, 1]] [2 ^ 63 - 1, - 1] (1 / 5) = Inr (Fin 0)"
    unfolding supervised_contrastive_loss_def l2
    by (simp add: positive_labels_def ce0 scale_loss_def i0)
  have "ln (exp 5 + 1) \<noteq> ln (exp (5 :: real))"
    by (subst ln_inj_iff) (simp_all add: add_pos_pos)
  then have ne: "(ln (exp 5 + 1) - 5) * (2 / 5) \<noteq> (0 :: real)" by simp
  have d1: "distinct [4, 9 :: 64 word]" by simp
  have d2: "distinct [2 ^ 63 - 1, - 1 :: 64 word]" by simp
  show ?thesis using d1 r s1 d2 s2 u ne by blast
qed

lemma spec_gathered_keys_eq:
  "spec_gathered_keys d k = concat_all_gather d (peer_keys d) (F_normalize k)"
  by (simp add: spec_gathered_keys_def concat_all_gather_def F_normalize_def)

text \<open>
  C6. In an initialised process group, when the rows of \<open>q\<close> and of the gathered keys
  have one feature length and every positive column exists, \<open>contrastive_loss\<close> returns the loss of its specification:
  rows L2-normalised, keys gathered in ascending rank order, logits the dot products over
  the temperature, positive of local sample \<open>n\<close> at column \<open>n + rank * N\<close>, and
  \<open>temp * 2\<close> times the mean cross entropy over the local batch. In a single process the
  gathered keys are the local ones and the positive of sample \<open>n\<close> is \<open>n\<close>.
\<close>

theorem contrastive_loss_meets_spec:
  assumes init: "is_initialized d"
      and feat: "\<forall>u\<in>set q. \<forall>v\<in>set (spec_gathered_keys d k). length u = length v"
      and pos: "\<forall>n<length q. spec_positive d (length q) n < length (spec_gathered_keys d k)"
  shows "contrastive_loss d q k temp = Inr (spec_contrastive_loss d q k temp) \<and>
         (get_world_size d = 1 \<and> get_rank d = 0 \<longrightarrow>
            spec_gathered_keys d k = map normalize_row k \<and>
            (\<forall>n. spec_positive d (length q) n = n))"
proof
  let ?kg = "spec_gathered_keys d k"
  let ?N = "length q"
  let ?M = "length ?kg"
  let ?logits = "map (\<lambda>n. map (\<lambda>m. fl_div (dot (normalize_row (q ! n)) (?kg ! m)) temp) [0..<?M]) [0..<?N]"
  let ?labels = "positive_labels ?N (get_rank d)"
  have feat': "\<forall>u\<in>set (F_normalize q). \<forall>v\<in>set ?kg. length u = length v"
    using feat by (auto simp: F_normalize_def length_normalize_row)
  have es: "einsum_nc_mc (F_normalize q) ?kg = Inr (map (\<lambda>u. map (dot u) ?kg) (F_normalize q))"
    using feat' by (rule einsum_Inr)
  have lg: "div_temp (map (\<lambda>u. map (dot u) ?kg) (F_normalize q)) temp = ?logits"
    by (rule logits_index_form)
  have cl: "contrastive_loss d q k temp = scale_loss (CrossEntropyLoss ?logits ?labels) (2 * temp)"
    unfolding contrastive_loss_def Let_def spec_gathered_keys_eq[symmetric]
    using es lg init by simp
  have z: "zip ?logits ?labels =
             map (\<lambda>n. (map (spec_logit d q k temp n) [0..<?M], spec_positive d ?N n)) [0..<?N]"
    by (rule nth_equalityI)
       (simp_all add: positive_labels_def spec_logit_def spec_positive_def mult.commute)
  have inrange: "list_all (\<lambda>(row, t). t < length row) (zip ?logits ?labels)"
    using pos by (simp add: z list_all_iff)
  have ce: "CrossEntropyLoss ?logits ?labels =
              Inr (fl_mean (map (\<lambda>n. fl_neg (log_softmax_at (map (spec_logit d q k temp n) [0..<?M])
                                                 (spec_positive d ?N n))) [0..<?N]))"
    unfolding CrossEntropyLoss_def using inrange
    by (simp add: z comp_def) (simp add: positive_labels_def)
  show "contrastive_loss d q k temp = Inr (spec_contrastive_loss d q k temp)"
    by (simp add: cl ce scale_loss_def spec_contrastive_loss_def Let_def mult.commute)
  show "get_world_size d = 1 \<and> get_rank d = 0 \<longrightarrow>
            spec_gathered_keys d k = map normalize_row k \<and>
            (\<forall>n. spec_positive d (length q) n = n)"
    by (simp add: spec_gathered_keys_def spec_positive_def)
qed

theorem contrastive_loss_meets_spec_witness:
  "is_initialized
        \<lparr> is_initialized = True, get_rank = 1, get_world_size = 2,
          peer_keys = (\<lambda>r. [[1, 0]]), peer_labels = (\<lambda>r. [3]) \<rparr> \<and>
   spec_gathered_keys
        \<lparr> is_initialized = True, get_rank = 1, get_world_size = 2,
          peer_keys = (\<lambda>r. [[1, 0]]), peer_labels = (\<lambda>r. [3]) \<rparr> [[0, 2]] = [[1, 0], [0, 1]] \<and>
   spec_positive
        \<lparr> is_initialized = True, get_rank = 1, get_world_size = 2,
          peer_keys = (\<lambda>r. [[1, 0]]), peer_labels = (\<lambda>r. [3]) \<rparr> (length [[0 :: real, 1]]) 0 = 1 \<and>
   contrastive_loss
        \<lparr> is_initialized = True, get_rank = 1, get_world_size = 2,
          peer_keys = (\<lambda>r. [[1, 0]]), peer_labels = (\<lambda>r. [3]) \<rparr> [[0, 1]] [[0, 2]] (1 / 5) =
     Inr (spec_contrastive_loss
        \<lparr> is_initialized = True, get_rank = 1, get_world_size = 2,
          peer_keys = (\<lambda>r. [[1, 0]]), peer_labels = (\<lambda>r. [3]) \<rparr> [[0, 1]] [[0, 2]] (1 / 5))"
proof -
  let ?d = "\<lparr> is_initialized = True, get_rank = 1, get_world_size = 2,
          peer_keys = (\<lambda>r. [[1, 0]]), peer_labels = (\<lambda>r. [3]) \<rparr>"
  have g: "spec_gathered_keys ?d [[0, 2]] = [[1, 0], [0, 1]]"
    by (simp add: spec_gathered_keys_def normalize_row_def l2_norm_def normalize_eps_def
        upt_conv_Cons)
  have p0: "spec_positive ?d (length [[0 :: real, 1]]) 0 = 1"
    by (simp add: spec_positive_def)
  have p: "\<forall>n<length [[0::real, 1]]. spec_positive ?d (length [[0::real, 1]]) n < 2"
    by (simp add: spec_positive_def)
  have f: "\<forall>u\<in>set [[0, 1]]. \<forall>v\<in>set (spec_gathered_keys ?d [[0, 2]]). length u = length v"
    using g by simp
  have i: "is_initialized ?d" by simp
  show ?thesis
    using contrastive_loss_meets_spec[of ?d "[[0, 1]]" "[[0, 2]]" "1 / 5"] i g p0 p f by simp
qed

section \<open>Properties of the training step\<close>

lemma train_step_nonfinite_exact:
  assumes nf: "\<not> isfinite (criterion c (parameters s) batch)"
  shows "train_step c a epoch n s (i, batch) =
     (let progress = real i / real n + real epoch;
          s0 = (if kaiming_sched a
                then s \<lparr> optimizer := adjust_learning_rate c (optimizer s) progress,
                        calls := calls s @ [AdjustLearningRate progress] \<rparr>
                else s)
      in if 0 < moe_contrastive_weight a
         then (case loss_gate_item a (targets_discrete c batch)
                       (collect_moe_activation c (parameters s) batch) of
                 Inl e \<Rightarrow> (Raised e, s0)
               | Inr g \<Rightarrow>
                   (Raised ValueError, s0 \<lparr> calls := calls s0 @ [MetricUpdate ''loss_gate'' g] \<rparr>))
         else (Raised ValueError, s0))"
  using nf by (simp add: train_step_def Let_def split: sum.splits)

text \<open>
  C1, as amended. When the loss value of the criterion, read before the gate and load
  losses are added, is NaN or infinite, the step raises: ValueError, unless computing the
  gate loss has raised first. At that point \<open>zero_grad\<close>, the scaler, the accelerator
  synchronisation and the EMA update have not been called, the parameters and the EMA
  model are what they were, and the optimizer is what it was except for the learning-rate
  adjustment made at the start of the batch when \<open>kaiming_sched\<close> is set. The loop
  ends with that exception; no later batch is run.
\<close>

theorem nonfinite_loss_raises_before_optimizer:
  fixes c :: "('b, 'p, 'o) collaborators" and a :: args and epoch n i :: nat
    and s :: "('p, 'o) train_state" and batch :: 'b
  assumes nf: "\<not> isfinite (criterion c (parameters s) batch)"
  defines "r \<equiv> train_step c a epoch n s (i, batch)"
  shows "(\<exists>e. fst r = Raised e) \<and>
         ((0 < moe_contrastive_weight a \<longrightarrow>
             (\<exists>g. loss_gate_item a (targets_discrete c batch)
                     (collect_moe_activation c (parameters s) batch) = Inr g))
            \<longrightarrow> fst r = Raised ValueError) \<and>
         parameters (snd r) = parameters s \<and>
         model_ema (snd r) = model_ema s \<and>
         optimizer (snd r) =
           (if kaiming_sched a
            then adjust_learning_rate c (optimizer s) (real i / real n + real epoch)
            else optimizer s) \<and>
         take (length (calls s)) (calls (snd r)) = calls s \<and>
         (\<forall>x \<in> set (drop (length (calls s)) (calls (snd r))).
            x \<noteq> ZeroGrad \<and> (\<forall>l. x \<noteq> LossScaler l) \<and> x \<noteq> EmaUpdate \<and> x \<noteq> CudaSynchronize) \<and>
         train_loop c a epoch n s ((i, batch) # rest) = r"
proof -
  note ex = train_step_nonfinite_exact[OF nf, of a epoch n i]
  show ?thesis
  proof (cases "0 < moe_contrastive_weight a")
    case False
    then show ?thesis
      unfolding r_def train_loop.simps ex by (simp add: Let_def)
  next
    case True
    show ?thesis
    proof (cases "loss_gate_item a (targets_discrete c batch)
                    (collect_moe_activation c (parameters s) batch)")
      case (Inl e)
      then show ?thesis
        unfolding r_def train_loop.simps ex using True by (simp add: Let_def)
    next
      case (Inr g)
      then show ?thesis
        unfolding r_def train_loop.simps ex using True by (simp add: Let_def)
    qed
  qed
qed

theorem nonfinite_loss_raises_before_optimizer_witness:
  "\<not> isfinite (criterion
        (\<lparr> adjust_learning_rate = (\<lambda>opt x. opt + 1), criterion = (\<lambda>p b. NaN),
          collect_moe_activation = (\<lambda>p b. []), targets_discrete = (\<lambda>b. []),
          collect_noisy_gating_loss = (\<lambda>p w. Fin 0), zero_grad = (\<lambda>opt. opt),
          loss_scaler = (\<lambda>l opt p. (opt + 1, p + 1)), ema_update = (\<lambda>e p. p),
          lr = (\<lambda>opt. 1 / 1000) \<rparr> :: (unit, nat, nat) collaborators)
        (parameters \<lparr> parameters = 0 :: nat, optimizer = 0 :: nat, model_ema = None, calls = [] \<rparr>) ()) \<and>
   train_step
        \<lparr> adjust_learning_rate = (\<lambda>opt x. opt + 1), criterion = (\<lambda>p b. NaN),
          collect_moe_activation = (\<lambda>p b. []), targets_discrete = (\<lambda>b. []),
          collect_noisy_gating_loss = (\<lambda>p w. Fin 0), zero_grad = (\<lambda>opt. opt),
          loss_scaler = (\<lambda>l opt p. (opt + 1, p + 1)), ema_update = (\<lambda>e p. p),
          lr = (\<lambda>opt. 1 / 1000) \<rparr>
        \<lparr> kaiming_sched = True, moe_contrastive_weight = 0, moe_contrastive_supervised = False,
          arch = ''moe_vit_small'', moe_noisy_gate_loss_weight = 1 / 100 \<rparr>
        3 10 \<lparr> parameters = 0 :: nat, optimizer = 0 :: nat, model_ema = None, calls = [] \<rparr>
        (0, ()) =
     (Raised ValueError,
      \<lparr> parameters = 0, optimizer = 1, model_ema = None, calls = [AdjustLearningRate 3] \<rparr>)"
proof -
  let ?c = "\<lparr> adjust_learning_rate = (\<lambda>opt x. opt + 1), criterion = (\<lambda>p b. NaN),
          collect_moe_activation = (\<lambda>p b. []), targets_discrete = (\<lambda>b. []),
          collect_noisy_gating_loss = (\<lambda>p w. Fin 0), zero_grad = (\<lambda>opt. opt),
          loss_scaler = (\<lambda>l opt p. (opt + 1, p + 1)), ema_update = (\<lambda>e p. p),
          lr = (\<lambda>opt. 1 / 1000) \<rparr> :: (unit, nat, nat) collaborators"
  let ?a = "\<lparr> kaiming_sched = True, moe_contrastive_weight = 0, moe_contrastive_supervised = False,
          arch = ''moe_vit_small'', moe_noisy_gate_loss_weight = 1 / 100 \<rparr>"
  let ?s = "\<lparr> parameters = 0 :: nat, optimizer = 0 :: nat, model_ema = None, calls = [] \<rparr>"
  let ?r = "train_step ?c ?a 3 10 ?s (0, ())"
  have nf: "\<not> isfinite (criterion ?c (parameters ?s) ())" by simp
  note t = nonfinite_loss_raises_before_optimizer[OF nf, of ?a 3 10 0 "[]"]
  have 1: "fst ?r = Raised ValueError" using t by simp
  have 2: "parameters (snd ?r) = 0" "model_ema (snd ?r) = None" "optimizer (snd ?r) = 1"
    using t by simp_all
  have 3: "calls (snd ?r) = [AdjustLearningRate 3]"
    by (simp add: train_step_def)
  have "snd ?r = \<lparr> parameters = 0, optimizer = 1, model_ema = None, calls = [AdjustLearningRate 3] \<rparr>"
    using 2 3 by (cases "snd ?r") simp
  with 1 have r: "?r = (Raised ValueError,
      \<lparr> parameters = 0, optimizer = 1, model_ema = None, calls = [AdjustLearningRate 3] \<rparr>)"
    by (cases ?r) simp
  show ?thesis
  proof (rule conjI)
    show "\<not> isfinite (criterion ?c (parameters ?s) ())" by (rule nf)
    show "?r = (Raised ValueError,
      \<lparr> parameters = 0, optimizer = 1, model_ema = None, calls = [AdjustLearningRate 3] \<rparr>)"
      by (rule r)
  qed
qed

text \<open>
  C1 as stated fails. The check reads \<open>loss_value\<close>, the loss of the criterion alone.
  With a finite criterion loss 1.0 and a NaN load-balancing loss the composed loss is
  NaN, no error is raised, and \<open>zero_grad\<close> and the scaler are called with that loss.
\<close>

theorem nonfinite_composed_loss_counterexample:
  "fl_add (Fin 1) NaN = NaN \<and> \<not> isfinite NaN \<and>
   train_step
        \<lparr> adjust_learning_rate = (\<lambda>opt x. opt + 1), criterion = (\<lambda>p b. Fin 1),
          collect_moe_activation = (\<lambda>p b. []), targets_discrete = (\<lambda>b. []),
          collect_noisy_gating_loss = (\<lambda>p w. NaN), zero_grad = (\<lambda>opt. opt),
          loss_scaler = (\<lambda>l opt p. (opt + 1, p + 1)), ema_update = (\<lambda>e p. p),
          lr = (\<lambda>opt. 1 / 1000) \<rparr>
        \<lparr> kaiming_sched = False, moe_contrastive_weight = 0, moe_contrastive_supervised = False,
          arch = ''moe_vit_small'', moe_noisy_gate_loss_weight = 1 / 100 \<rparr>
        3 10 \<lparr> parameters = 0 :: nat, optimizer = 0 :: nat, model_ema = None, calls = [] \<rparr> (0, ()) =
     (Completed,
      \<lparr> parameters = 1, optimizer = 1, model_ema = None,
        calls = [ZeroGrad, LossScaler NaN, CudaSynchronize, MetricUpdate ''loss'' (Fin 1),
                 MetricUpdate ''lr'' (Fin (1 / 1000))] \<rparr>)"
  by (simp add: train_step_def)

end
